theory Spec2Isabelle
  imports Main
begin

section \<open>Python values, exceptions and effects\<close>

text \<open>
  The repository is a facade (\<^verbatim>\<open>RedditManager.py\<close>) over the PRAW client library and a
  Streamlit script (\<^verbatim>\<open>app.py\<close>) that drives it. Every method of the facade is a
  \<^verbatim>\<open>try: ... except Exception as e: log; return <no result>\<close> block, so the model
  keeps exceptions as values: a computation returns \<open>Inl e\<close> when it raises \<open>e\<close>.
  Only instances of \<^verbatim>\<open>Exception\<close> are modelled, which is what the handlers catch.
\<close>

datatype exn =
    ValueError string
  | NameError string
  | AttributeError string
  | KeyError string
  | ClientError string  \<comment> \<open>any exception raised inside the client library\<close>

text \<open>\<^verbatim>\<open>str(e)\<close>: the message the exception was built with.\<close>

fun str_exn :: "exn \<Rightarrow> string" where
  "str_exn (ValueError m) = m"
| "str_exn (NameError m) = m"
| "str_exn (AttributeError m) = m"
| "str_exn (KeyError m) = m"
| "str_exn (ClientError m) = m"

text \<open>
  A value that the client library hands back. Strings and \<^verbatim>\<open>None\<close> are modelled
  structurally; everything else (integers, floats, datetimes, Redditor objects, remote
  handles) is an opaque object of type \<open>'o\<close>.
\<close>

datatype 'o pyval = PNone | PStr string | PObj 'o

type_synonym 'o dict = "(string \<times> 'o pyval) list"

text \<open>\<^verbatim>\<open>d.get(key, default)\<close> on a dictionary kept as an association list.\<close>

definition dict_get :: "'o dict \<Rightarrow> string \<Rightarrow> 'o pyval \<Rightarrow> 'o pyval" where
  "dict_get d k dflt = (case map_of d k of None \<Rightarrow> dflt | Some v \<Rightarrow> v)"

text \<open>A computation over a state \<open>'s\<close> that returns a value or raises.\<close>

type_synonym ('s, 'a) act = "'s \<Rightarrow> (exn + 'a) \<times> 's"

definition ret :: "'a \<Rightarrow> ('s, 'a) act" where
  "ret x s = (Inr x, s)"

definition raiseE :: "exn \<Rightarrow> ('s, 'a) act" where
  "raiseE e s = (Inl e, s)"

definition bindE :: "('s, 'a) act \<Rightarrow> ('a \<Rightarrow> ('s, 'b) act) \<Rightarrow> ('s, 'b) act" where
  "bindE m f s = (case m s of (Inl e, s') \<Rightarrow> (Inl e, s') | (Inr x, s') \<Rightarrow> f x s')"

text \<open>\<^verbatim>\<open>try: m except Exception as e: h(e)\<close>\<close>

definition try_except :: "('s, 'a) act \<Rightarrow> (exn \<Rightarrow> ('s, 'a) act) \<Rightarrow> ('s, 'a) act" where
  "try_except m h s = (case m s of (Inl e, s') \<Rightarrow> h e s' | (Inr x, s') \<Rightarrow> (Inr x, s'))"

section \<open>The client library\<close>

text \<open>
  PRAW is not part of the repository; the facade is written against its interface. The
  record below is that interface, one field per call the source makes. \<open>'w\<close> is the state
  behind the session (the remote service and the session's own caches); every call may
  change it and may raise.
\<close>

datatype body = Selftext string | Url string

text \<open>The keyword arguments of \<^verbatim>\<open>praw.Reddit(...)\<close>, as \<^verbatim>\<open>os.getenv\<close> returned them.\<close>

record session =
  s_client_id :: "string option"
  s_client_secret :: "string option"
  s_user_agent :: "string option"
  s_username :: "string option"
  s_password :: "string option"

type_synonym ('w, 'a) remote = "'w \<Rightarrow> (exn + 'a) \<times> 'w"

record ('w, 'o) praw =
  p_subreddit :: "session \<Rightarrow> string \<Rightarrow> ('w, 'o) remote"
    \<comment> \<open>\<^verbatim>\<open>reddit.subreddit(name)\<close>\<close>
  p_submit :: "'o \<Rightarrow> string \<Rightarrow> body \<Rightarrow> ('w, 'o) remote"
    \<comment> \<open>\<^verbatim>\<open>subreddit.submit(title=..., selftext=...)\<close> or \<^verbatim>\<open>(title=..., url=...)\<close>\<close>
  p_submit_image :: "'o \<Rightarrow> string \<Rightarrow> string \<Rightarrow> ('w, 'o) remote"
    \<comment> \<open>\<^verbatim>\<open>subreddit.submit_image(title=..., image_path=...)\<close>\<close>
  p_submission :: "session \<Rightarrow> 'o pyval \<Rightarrow> ('w, 'o) remote"
    \<comment> \<open>\<^verbatim>\<open>reddit.submission(id=...)\<close>\<close>
  p_getattr :: "'o \<Rightarrow> string \<Rightarrow> ('w, 'o pyval) remote"
    \<comment> \<open>an attribute read \<^verbatim>\<open>post.<name>\<close>; PRAW objects fetch lazily, so it may raise\<close>
  p_edit :: "'o \<Rightarrow> string \<Rightarrow> ('w, unit) remote"
  p_delete :: "'o \<Rightarrow> ('w, unit) remote"
  p_user_me :: "session \<Rightarrow> ('w, 'o) remote"
    \<comment> \<open>\<^verbatim>\<open>reddit.user.me()\<close>\<close>
  p_submissions_new :: "'o \<Rightarrow> int \<Rightarrow> ('w, (exn + 'o) list) remote"
    \<comment> \<open>\<^verbatim>\<open>user.submissions.new(limit=...)\<close>: what iterating the listing yields, in order;
        an \<open>Inl e\<close> element is an iteration step that raises \<open>e\<close>\<close>
  fromtimestamp :: "'o pyval \<Rightarrow> exn + 'o pyval"
    \<comment> \<open>\<^verbatim>\<open>datetime.fromtimestamp\<close>\<close>
  obj_str :: "'o \<Rightarrow> string"
    \<comment> \<open>\<^verbatim>\<open>str(x)\<close> of an opaque object\<close>
  obj_bool :: "'o \<Rightarrow> bool"
    \<comment> \<open>\<^verbatim>\<open>bool(x)\<close> of an opaque object\<close>

fun py_str :: "('w, 'o, 'z) praw_scheme \<Rightarrow> 'o pyval \<Rightarrow> string" where
  "py_str b PNone = ''None''"
| "py_str b (PStr s) = s"
| "py_str b (PObj x) = obj_str b x"

fun truthy :: "('w, 'o, 'z) praw_scheme \<Rightarrow> 'o pyval \<Rightarrow> bool" where
  "truthy b PNone = False"
| "truthy b (PStr s) = (s \<noteq> [])"
| "truthy b (PObj x) = obj_bool b x"

text \<open>Every call made on the session or on an object obtained from it, in order.\<close>

datatype 'o call =
    CSubreddit string
  | CSubmit 'o string body
  | CSubmitImage 'o string string
  | CSubmission "'o pyval"
  | CGetattr 'o string
  | CEdit 'o string
  | CDelete 'o
  | CUserMe
  | CSubmissionsNew 'o int

datatype level = INFO | ERROR

section \<open>The facade: \<^verbatim>\<open>RedditManager\<close>\<close>

text \<open>The attributes \<^verbatim>\<open>__init__\<close> assigns on \<^verbatim>\<open>self\<close>.\<close>

record manager =
  client_id :: "string option"
  client_secret :: "string option"
  username :: "string option"
  password :: "string option"
  user_agent :: "string option"
  reddit :: session
  logger :: string

text \<open>
  The state a method runs in: the instance's attributes, the state behind the session,
  the calls made on the client so far and the records written to the logger.
\<close>

record ('w, 'o) st =
  facade :: manager
  remote :: 'w
  calls :: "'o call list"
  logs :: "(level \<times> string) list"

text \<open>A call on the client: it is recorded, then run on the remote state.\<close>

definition client :: "'o call \<Rightarrow> ('w, 'a) remote \<Rightarrow> (('w, 'o) st, 'a) act" where
  "client c f s =
     (case f (remote s) of (r, w') \<Rightarrow> (r, s\<lparr>remote := w', calls := calls s @ [c]\<rparr>))"

definition logger_info :: "string \<Rightarrow> (('w, 'o) st, unit) act" where
  "logger_info msg s = (Inr (), s\<lparr>logs := logs s @ [(INFO, msg)]\<rparr>)"

definition logger_error :: "string \<Rightarrow> (('w, 'o) st, unit) act" where
  "logger_error msg s = (Inr (), s\<lparr>logs := logs s @ [(ERROR, msg)]\<rparr>)"

text \<open>\<^verbatim>\<open>self.reddit\<close>\<close>

definition self_reddit :: "(('w, 'o) st, session) act" where
  "self_reddit s = (Inr (reddit (facade s)), s)"

subsection \<open>\<^verbatim>\<open>__init__\<close>\<close>

type_synonym env = "string \<rightharpoonup> string"

definition required_vars :: "string list" where
  "required_vars = [''REDDIT_CLIENT_ID'', ''REDDIT_CLIENT_SECRET'', ''REDDIT_USERNAME'',
                    ''REDDIT_PASSWORD'', ''REDDIT_USER_AGENT'']"

text \<open>\<^verbatim>\<open>not os.getenv(var)\<close>: the variable is unset or set to the empty string.\<close>

definition not_getenv :: "env \<Rightarrow> string \<Rightarrow> bool" where
  "not_getenv env var = (case env var of None \<Rightarrow> True | Some v \<Rightarrow> v = [])"

definition missing_vars :: "env \<Rightarrow> string list" where
  "missing_vars env = filter (not_getenv env) required_vars"

text \<open>\<^verbatim>\<open>sep.join(xs)\<close>\<close>

fun join :: "string \<Rightarrow> string list \<Rightarrow> string" where
  "join sep [] = []"
| "join sep [x] = x"
| "join sep (x # y # ys) = x @ sep @ join sep (y # ys)"

text \<open>
  \<^verbatim>\<open>praw.Reddit(client_id=..., ...)\<close> stores its arguments; it sends nothing until the
  first call on the session, so it is modelled as the record of its arguments.
\<close>

definition praw_Reddit ::
  "string option \<Rightarrow> string option \<Rightarrow> string option \<Rightarrow> string option \<Rightarrow> string option \<Rightarrow> session"
where
  "praw_Reddit cid secret agent user pw =
     \<lparr>s_client_id = cid, s_client_secret = secret, s_user_agent = agent,
      s_username = user, s_password = pw\<rparr>"

text \<open>
  \<^verbatim>\<open>RedditManager()\<close> on the environment \<open>env\<close> (after \<^verbatim>\<open>load_dotenv()\<close>), with \<open>w\<close> the
  state of the remote side. It raises, or returns the state holding the new instance.
\<close>

definition RedditManager_init :: "env \<Rightarrow> 'w \<Rightarrow> exn + ('w, 'o) st" where
  "RedditManager_init env w =
     (let cid = env ''REDDIT_CLIENT_ID'';
          secret = env ''REDDIT_CLIENT_SECRET'';
          user = env ''REDDIT_USERNAME'';
          pw = env ''REDDIT_PASSWORD'';
          agent = env ''REDDIT_USER_AGENT'';
          missing = missing_vars env
      in if missing \<noteq> []
         then Inl (ValueError (''Missing required environment variables: '' @ join '', '' missing))
         else Inr \<lparr>facade = \<lparr>client_id = cid, client_secret = secret, username = user,
                              password = pw, user_agent = agent,
                              reddit = praw_Reddit cid secret agent user pw,
                              logger = ''RedditManager''\<rparr>,
                   remote = w, calls = [],
                   logs = [(INFO, ''Reddit Manager initialized successfully'')]\<rparr>)"

subsection \<open>\<^verbatim>\<open>create_post\<close>\<close>

definition invalid_post_type_msg :: string where
  "invalid_post_type_msg =
     ''Invalid post type. Must be '' @ [CHR 0x27] @ ''text'' @ [CHR 0x27] @ '', '' @
     [CHR 0x27] @ ''link'' @ [CHR 0x27] @ '', or '' @ [CHR 0x27] @ ''image'' @ [CHR 0x27]"

definition create_post ::
  "('w, 'o) praw \<Rightarrow> string \<Rightarrow> string \<Rightarrow> string \<Rightarrow> string \<Rightarrow> (('w, 'o) st, 'o pyval option) act"
where
  "create_post b subreddit_name title content post_type =
     try_except
       (bindE self_reddit (\<lambda>r.
        bindE (client (CSubreddit subreddit_name) (p_subreddit b r subreddit_name)) (\<lambda>subreddit.
        bindE (if post_type = ''text''
                 then client (CSubmit subreddit title (Selftext content))
                        (p_submit b subreddit title (Selftext content))
               else if post_type = ''link''
                 then client (CSubmit subreddit title (Url content))
                        (p_submit b subreddit title (Url content))
               else if post_type = ''image''
                 then client (CSubmitImage subreddit title content)
                        (p_submit_image b subreddit title content)
               else raiseE (ValueError invalid_post_type_msg)) (\<lambda>post.
        bindE (client (CGetattr post ''id'') (p_getattr b post ''id'')) (\<lambda>i.
        bindE (logger_info (''Created post: '' @ py_str b i)) (\<lambda>_.
        bindE (client (CGetattr post ''id'') (p_getattr b post ''id'')) (\<lambda>i'.
        ret (Some i'))))))))
       (\<lambda>e. bindE (logger_error (''Error creating post: '' @ str_exn e)) (\<lambda>_. ret None))"

text \<open>
  The call as written at a call site: \<^verbatim>\<open>post_type\<close> has the default \<^verbatim>\<open>'text'\<close>, so the
  fourth argument may be left out (\<open>None\<close>).
\<close>

definition create_post_call ::
  "('w, 'o) praw \<Rightarrow> string \<Rightarrow> string \<Rightarrow> string \<Rightarrow> string option \<Rightarrow> (('w, 'o) st, 'o pyval option) act"
where
  "create_post_call b subreddit_name title content post_type =
     create_post b subreddit_name title content
       (case post_type of None \<Rightarrow> ''text'' | Some k \<Rightarrow> k)"

subsection \<open>\<^verbatim>\<open>read_post\<close>\<close>

text \<open>A library function that raises or returns, and touches no state.\<close>

definition lift :: "exn + 'a \<Rightarrow> ('s, 'a) act" where
  "lift r s = (r, s)"

definition read_post ::
  "('w, 'o) praw \<Rightarrow> 'o pyval \<Rightarrow> (('w, 'o) st, 'o dict option) act"
where
  "read_post b post_id =
     try_except
       (bindE self_reddit (\<lambda>r.
        bindE (client (CSubmission post_id) (p_submission b r post_id)) (\<lambda>post.
        bindE (client (CGetattr post ''id'') (p_getattr b post ''id'')) (\<lambda>v_id.
        bindE (client (CGetattr post ''title'') (p_getattr b post ''title'')) (\<lambda>v_title.
        bindE (client (CGetattr post ''selftext'') (p_getattr b post ''selftext'')) (\<lambda>v_selftext.
        bindE (client (CGetattr post ''score'') (p_getattr b post ''score'')) (\<lambda>v_score.
        bindE (client (CGetattr post ''url'') (p_getattr b post ''url'')) (\<lambda>v_url.
        bindE (client (CGetattr post ''created_utc'') (p_getattr b post ''created_utc'')) (\<lambda>v_created.
        bindE (lift (fromtimestamp b v_created)) (\<lambda>v_datetime.
        bindE (client (CGetattr post ''author'') (p_getattr b post ''author'')) (\<lambda>v_author.
        bindE (client (CGetattr post ''num_comments'') (p_getattr b post ''num_comments'')) (\<lambda>v_num.
        ret (Some [(''id'', v_id),
                   (''title'', v_title),
                   (''content'', v_selftext),
                   (''score'', v_score),
                   (''url'', v_url),
                   (''created_utc'', v_datetime),
                   (''author'', PStr (py_str b v_author)),
                   (''num_comments'', v_num)])))))))))))))
       (\<lambda>e. bindE (logger_error (''Error reading post: '' @ str_exn e)) (\<lambda>_. ret None))"

subsection \<open>\<^verbatim>\<open>update_post\<close> and \<^verbatim>\<open>delete_post\<close>\<close>

definition update_post ::
  "('w, 'o) praw \<Rightarrow> 'o pyval \<Rightarrow> string \<Rightarrow> (('w, 'o) st, bool) act"
where
  "update_post b post_id new_content =
     try_except
       (bindE self_reddit (\<lambda>r.
        bindE (client (CSubmission post_id) (p_submission b r post_id)) (\<lambda>post.
        bindE (client (CEdit post new_content) (p_edit b post new_content)) (\<lambda>_.
        bindE (logger_info (''Updated post: '' @ py_str b post_id)) (\<lambda>_.
        ret True)))))
       (\<lambda>e. bindE (logger_error (''Error updating post: '' @ str_exn e)) (\<lambda>_. ret False))"

definition delete_post ::
  "('w, 'o) praw \<Rightarrow> 'o pyval \<Rightarrow> (('w, 'o) st, bool) act"
where
  "delete_post b post_id =
     try_except
       (bindE self_reddit (\<lambda>r.
        bindE (client (CSubmission post_id) (p_submission b r post_id)) (\<lambda>post.
        bindE (client (CDelete post) (p_delete b post)) (\<lambda>_.
        bindE (logger_info (''Deleted post: '' @ py_str b post_id)) (\<lambda>_.
        ret True)))))
       (\<lambda>e. bindE (logger_error (''Error deleting post: '' @ str_exn e)) (\<lambda>_. ret False))"

subsection \<open>\<^verbatim>\<open>get_recent_posts\<close>\<close>

text \<open>
  The list comprehension
  \<^verbatim>\<open>[{'title': post.title, 'id': post.id} for post in recent_posts]\<close>:
  the listing is consumed front to back, and the first step that raises ends it.
\<close>

fun posts_data :: "('w, 'o) praw \<Rightarrow> (exn + 'o) list \<Rightarrow> (('w, 'o) st, 'o dict list) act" where
  "posts_data b [] = ret []"
| "posts_data b (Inl e # rest) = raiseE e"
| "posts_data b (Inr post # rest) =
     bindE (client (CGetattr post ''title'') (p_getattr b post ''title'')) (\<lambda>v_title.
     bindE (client (CGetattr post ''id'') (p_getattr b post ''id'')) (\<lambda>v_id.
     bindE (posts_data b rest) (\<lambda>ds.
     ret ([(''title'', v_title), (''id'', v_id)] # ds))))"

definition get_recent_posts ::
  "('w, 'o) praw \<Rightarrow> int \<Rightarrow> (('w, 'o) st, 'o dict list) act"
where
  "get_recent_posts b limit =
     try_except
       (bindE self_reddit (\<lambda>r.
        bindE (client CUserMe (p_user_me b r)) (\<lambda>user.
        bindE (client (CSubmissionsNew user limit) (p_submissions_new b user limit)) (\<lambda>recent_posts.
        posts_data b recent_posts))))
       (\<lambda>e. bindE (logger_error (''Error fetching user'' @ [CHR 0x27] @ ''s recent posts: '' @ str_exn e))
              (\<lambda>_. ret []))"

text \<open>\<^verbatim>\<open>limit\<close> has the default 10.\<close>

definition get_recent_posts_call ::
  "('w, 'o) praw \<Rightarrow> int option \<Rightarrow> (('w, 'o) st, 'o dict list) act"
where
  "get_recent_posts_call b limit =
     get_recent_posts b (case limit of None \<Rightarrow> 10 | Some n \<Rightarrow> n)"

subsection \<open>Sequences of operations\<close>

datatype 'o operation =
    Create_post string string string "string option"
  | Read_post "'o pyval"
  | Update_post "'o pyval" string
  | Delete_post "'o pyval"
  | Get_recent_posts "int option"

text \<open>One call on the facade by a caller that ignores the result.\<close>

fun run_operation :: "('w, 'o) praw \<Rightarrow> 'o operation \<Rightarrow> ('w, 'o) st \<Rightarrow> ('w, 'o) st" where
  "run_operation b (Create_post n t c k) s = snd (create_post_call b n t c k s)"
| "run_operation b (Read_post i) s = snd (read_post b i s)"
| "run_operation b (Update_post i c) s = snd (update_post b i c s)"
| "run_operation b (Delete_post i) s = snd (delete_post b i s)"
| "run_operation b (Get_recent_posts l) s = snd (get_recent_posts_call b l s)"

fun run_operations :: "('w, 'o) praw \<Rightarrow> 'o operation list \<Rightarrow> ('w, 'o) st \<Rightarrow> ('w, 'o) st" where
  "run_operations b [] s = s"
| "run_operations b (x # xs) s = run_operations b xs (run_operation b x s)"

section \<open>The Streamlit script: \<^verbatim>\<open>app.py\<close>\<close>

text \<open>
  Streamlit runs the script top to bottom on every interaction. One run is modelled: its
  inputs are the environment, the state of the remote side and what the user has entered
  in the widgets; its outputs are the elements it renders, in order, and the exception
  that ended it, if any.
\<close>

datatype 'o element =
    St_error string
  | St_sidebar_selectbox string "string list"
  | St_header string
  | St_text_input string
  | St_text_area string
  | St_selectbox string "'o pyval list"
  | St_button string
  | St_success string
  | St_markdown string
  | St_warning string
  | St_info string
  | St_write string
  | St_write_dict "'o dict"

text \<open>What the user has entered; a selectbox is answered by the index of an option.\<close>

record inputs =
  platform_choice :: nat
  operation_choice :: nat
  subreddit_name_text :: string
  title_text :: string
  content_text :: string
  post_type_choice :: nat
  post_choice :: nat
  new_content_text :: string
  button_clicked :: bool

text \<open>
  The script's state: the module global \<^verbatim>\<open>reddit_manager\<close> (\<open>None\<close> while the name is
  unbound), holding the instance with the state its methods run in, and the page.
\<close>

record ('w, 'o) page =
  reddit_manager :: "('w, 'o) st option"
  rendered :: "'o element list"

definition render :: "'o element \<Rightarrow> (('w, 'o) page, unit) act" where
  "render x p = (Inr (), p\<lparr>rendered := rendered p @ [x]\<rparr>)"

text \<open>
  A selectbox returns the chosen option, the first one while nothing is chosen; \<open>none\<close>
  is what it returns for an empty list of options.
\<close>

definition selectbox :: "'a \<Rightarrow> 'a list \<Rightarrow> nat \<Rightarrow> 'a" where
  "selectbox none options i =
     (case options of [] \<Rightarrow> none
      | x # xs \<Rightarrow> if i < length options then options ! i else x)"

text \<open>
  A method call \<^verbatim>\<open>reddit_manager.m(...)\<close>: looking the name up raises \<^verbatim>\<open>NameError\<close> when
  it was never bound.
\<close>

definition on_reddit_manager :: "(('w, 'o) st, 'a) act \<Rightarrow> (('w, 'o) page, 'a) act" where
  "on_reddit_manager m p =
     (case reddit_manager p of
        None \<Rightarrow> (Inl (NameError (''name '' @ [CHR 0x27] @ ''reddit_manager'' @ [CHR 0x27] @
                                   '' is not defined'')), p)
      | Some s \<Rightarrow> (case m s of (r, s') \<Rightarrow> (r, p\<lparr>reddit_manager := Some s'\<rparr>)))"

text \<open>
  \<^verbatim>\<open>{post['title']: post['id'] for post in recent_posts}\<close>: a later post with the same
  title replaces the id and keeps the key's place.
\<close>

definition dict_item :: "'o dict \<Rightarrow> string \<Rightarrow> exn + 'o pyval" where
  "dict_item d k = (case map_of d k of None \<Rightarrow> Inl (KeyError k) | Some v \<Rightarrow> Inr v)"

fun dict_store :: "('k \<times> 'v) list \<Rightarrow> 'k \<Rightarrow> 'v \<Rightarrow> ('k \<times> 'v) list" where
  "dict_store [] k v = [(k, v)]"
| "dict_store ((k', v') # d) k v = (if k' = k then (k, v) # d else (k', v') # dict_store d k v)"

fun post_titles_of ::
  "('o pyval \<times> 'o pyval) list \<Rightarrow> 'o dict list \<Rightarrow> exn + ('o pyval \<times> 'o pyval) list"
where
  "post_titles_of acc [] = Inr acc"
| "post_titles_of acc (post # rest) =
     (case dict_item post ''title'' of
        Inl e \<Rightarrow> Inl e
      | Inr t \<Rightarrow> (case dict_item post ''id'' of
                    Inl e \<Rightarrow> Inl e
                  | Inr i \<Rightarrow> post_titles_of (dict_store acc t i) rest))"

definition get_recent_posts_dropdown ::
  "('w, 'o) praw \<Rightarrow> inputs \<Rightarrow> (('w, 'o) page, 'o pyval) act"
where
  "get_recent_posts_dropdown b inp =
     bindE (on_reddit_manager (get_recent_posts_call b (Some 10))) (\<lambda>recent_posts.
     if recent_posts \<noteq> [] then
       bindE (lift (post_titles_of [] recent_posts)) (\<lambda>post_titles.
       bindE (render (St_selectbox ''Select a Post'' (map fst post_titles))) (\<lambda>_.
       (let selected_title = selectbox PNone (map fst post_titles) (post_choice inp)
        in case map_of post_titles selected_title of
             None \<Rightarrow> raiseE (KeyError (py_str b selected_title))
           | Some selected_post_id \<Rightarrow> ret selected_post_id)))
     else
       bindE (render (St_warning ''No recent posts found.'')) (\<lambda>_. ret PNone))"

definition post_url :: "string \<Rightarrow> string \<Rightarrow> string" where
  "post_url subreddit_name post_id =
     ''https://www.reddit.com/r/'' @ subreddit_name @ ''/comments/'' @ post_id @ ''/''"

definition create_branch :: "('w, 'o) praw \<Rightarrow> inputs \<Rightarrow> (('w, 'o) page, unit) act" where
  "create_branch b inp =
     bindE (render (St_header ''Create a New Reddit Post'')) (\<lambda>_.
     bindE (render (St_text_input (''Subreddit Name (without '' @ [CHR 0x27] @ ''r/'' @
                                   [CHR 0x27] @ '')''))) (\<lambda>_.
     bindE (render (St_text_input ''Post Title'')) (\<lambda>_.
     bindE (render (St_text_area ''Post Content'')) (\<lambda>_.
     bindE (render (St_selectbox ''Post Type'' [PStr ''text'', PStr ''link'', PStr ''image''])) (\<lambda>_.
     bindE (render (St_button ''Create Post'')) (\<lambda>_.
     (let subreddit_name = subreddit_name_text inp;
          title = title_text inp;
          content = content_text inp;
          post_type = selectbox [] [''text'', ''link'', ''image''] (post_type_choice inp)
      in if button_clicked inp then
           bindE (on_reddit_manager
                    (create_post_call b subreddit_name title content (Some post_type))) (\<lambda>post_id.
           case post_id of
             None \<Rightarrow> render (St_error ''Failed to create the post.'')
           | Some i \<Rightarrow>
               if truthy b i then
                 bindE (render (St_success (''Post created successfully! Post ID: '' @ py_str b i))) (\<lambda>_.
                 render (St_markdown (''[View Post on Reddit]('' @
                                      post_url subreddit_name (py_str b i) @ '')'')))
               else render (St_error ''Failed to create the post.''))
         else ret ())))))))"

definition read_branch :: "('w, 'o) praw \<Rightarrow> inputs \<Rightarrow> (('w, 'o) page, unit) act" where
  "read_branch b inp =
     bindE (render (St_header ''Read a Reddit Post'')) (\<lambda>_.
     bindE (get_recent_posts_dropdown b inp) (\<lambda>post_id.
     if truthy b post_id then
       bindE (render (St_button ''Fetch Post'')) (\<lambda>_.
       if button_clicked inp then
         bindE (on_reddit_manager (read_post b post_id)) (\<lambda>post_data.
         case post_data of
           None \<Rightarrow> render (St_error ''Failed to fetch the post.'')
         | Some d \<Rightarrow>
             if d \<noteq> [] then
               bindE (render (St_write ''Post details:'')) (\<lambda>_. render (St_write_dict d))
             else render (St_error ''Failed to fetch the post.''))
       else ret ())
     else ret ()))"

definition update_branch :: "('w, 'o) praw \<Rightarrow> inputs \<Rightarrow> (('w, 'o) page, unit) act" where
  "update_branch b inp =
     bindE (render (St_header ''Update an Existing Reddit Post'')) (\<lambda>_.
     bindE (get_recent_posts_dropdown b inp) (\<lambda>post_id.
     bindE (render (St_text_area ''New Content'')) (\<lambda>_.
     (let new_content = new_content_text inp
      in if truthy b post_id then
           bindE (render (St_button ''Update Post'')) (\<lambda>_.
           if button_clicked inp then
             bindE (on_reddit_manager (update_post b post_id new_content)) (\<lambda>update_success.
             if update_success then
               bindE (render (St_success ''Post updated successfully!'')) (\<lambda>_.
               bindE (on_reddit_manager (read_post b post_id)) (\<lambda>post_data.
               case post_data of
                 None \<Rightarrow> raiseE (AttributeError ([CHR 0x27] @ ''NoneType'' @ [CHR 0x27] @
                            '' object has no attribute '' @ [CHR 0x27] @ ''get'' @ [CHR 0x27]))
               | Some d \<Rightarrow>
                   (let subreddit_name = dict_get d ''subreddit'' (PStr ''unknown'')
                    in render (St_markdown (''[View Updated Post on Reddit]('' @
                         post_url (py_str b subreddit_name) (py_str b post_id) @ '')'')))))
             else render (St_error ''Failed to update the post.''))
           else ret ())
         else ret ()))))"

definition delete_branch :: "('w, 'o) praw \<Rightarrow> inputs \<Rightarrow> (('w, 'o) page, unit) act" where
  "delete_branch b inp =
     bindE (render (St_header ''Delete a Reddit Post'')) (\<lambda>_.
     bindE (get_recent_posts_dropdown b inp) (\<lambda>post_id.
     if truthy b post_id then
       bindE (render (St_button ''Delete Post'')) (\<lambda>_.
       if button_clicked inp then
         bindE (on_reddit_manager (delete_post b post_id)) (\<lambda>delete_success.
         if delete_success then
           bindE (render (St_success ''Post deleted successfully!'')) (\<lambda>_.
           render (St_info (''Note: The post has been deleted, so it is no longer '' @
                            ''available on Reddit.'')))
         else render (St_error ''Failed to delete the post.''))
       else ret ())
     else ret ()))"

definition platforms :: "string list" where
  "platforms = [''Reddit'', ''YouTube'', ''Facebook'', ''Instagram'', ''Twitter'', ''LinkedIn'']"

definition operations :: "string list" where
  "operations = [''Create Post'', ''Read Post'', ''Update Post'', ''Delete Post'']"

text \<open>Lines 10 to 13: the instance is built, or the failure is shown and the name stays unbound.\<close>

definition app_init :: "env \<Rightarrow> 'w \<Rightarrow> ('w, 'o) page" where
  "app_init env w =
     (case RedditManager_init env w of
        Inr s \<Rightarrow> \<lparr>reddit_manager = Some s, rendered = []\<rparr>
      | Inl e \<Rightarrow> \<lparr>reddit_manager = None,
                 rendered = [St_error (''Failed to initialize RedditManager: '' @ str_exn e)]\<rparr>)"

text \<open>Lines 15 to 105.\<close>

definition app_body :: "('w, 'o) praw \<Rightarrow> inputs \<Rightarrow> (('w, 'o) page, unit) act" where
  "app_body b inp =
     bindE (render (St_sidebar_selectbox ''Select Social Media Platform'' platforms)) (\<lambda>_.
     bindE (render (St_sidebar_selectbox ''Select Operation'' operations)) (\<lambda>_.
     (let platform = selectbox [] platforms (platform_choice inp);
          operation = selectbox [] operations (operation_choice inp)
      in if platform = ''Reddit'' then
           if operation = ''Create Post'' then create_branch b inp
           else if operation = ''Read Post'' then read_branch b inp
           else if operation = ''Update Post'' then update_branch b inp
           else if operation = ''Delete Post'' then delete_branch b inp
           else ret ()
         else render (St_write (platform @ '' integration coming soon!'')))))"

definition app :: "('w, 'o) praw \<Rightarrow> env \<Rightarrow> inputs \<Rightarrow> 'w \<Rightarrow> (exn + unit) \<times> ('w, 'o) page" where
  "app b env inp w = app_body b inp (app_init env w)"

section \<open>An in-memory client\<close>

text \<open>
  A small client that keeps its posts in a list, newest first, and draws the ids of new
  posts from a supply. It is used to run the facade and the script on concrete inputs.
\<close>

datatype mobj = Subreddit_h string | Submission_h string | Redditor_h string | Opaque string

record mpost =
  m_id :: string
  m_title :: string
  m_selftext :: string
  m_url :: string

record mworld =
  posts :: "mpost list"
  fresh_ids :: "string list"

fun find_post :: "string \<Rightarrow> mpost list \<Rightarrow> mpost option" where
  "find_post i [] = None"
| "find_post i (p # ps) = (if m_id p = i then Some p else find_post i ps)"

definition m_submit_post :: "string \<Rightarrow> string \<Rightarrow> string \<Rightarrow> (mworld, mobj) remote" where
  "m_submit_post title selftext url w =
     (case fresh_ids w of
        [] \<Rightarrow> (Inl (ClientError ''RATELIMIT''), w)
      | i # rest \<Rightarrow>
          (Inr (Submission_h i),
           \<lparr>posts = \<lparr>m_id = i, m_title = title, m_selftext = selftext, m_url = url\<rparr> # posts w,
            fresh_ids = rest\<rparr>))"

definition m_getattr :: "mobj \<Rightarrow> string \<Rightarrow> (mworld, mobj pyval) remote" where
  "m_getattr x name w =
     (case x of
        Submission_h i \<Rightarrow>
          if name = ''id'' then (Inr (PStr i), w)
          else (case find_post i (posts w) of
                  None \<Rightarrow> (Inl (ClientError ''received 404 HTTP response''), w)
                | Some p \<Rightarrow>
                    if name = ''title'' then (Inr (PStr (m_title p)), w)
                    else if name = ''selftext'' then (Inr (PStr (m_selftext p)), w)
                    else if name = ''url'' then (Inr (PStr (m_url p)), w)
                    else if name = ''score'' then (Inr (PObj (Opaque ''1'')), w)
                    else if name = ''created_utc'' then (Inr (PObj (Opaque ''1700000000.0'')), w)
                    else if name = ''author'' then (Inr (PObj (Redditor_h ''me'')), w)
                    else if name = ''num_comments'' then (Inr (PObj (Opaque ''0'')), w)
                    else (Inl (AttributeError name), w))
      | _ \<Rightarrow> (Inl (AttributeError name), w))"

definition m_edit :: "mobj \<Rightarrow> string \<Rightarrow> (mworld, unit) remote" where
  "m_edit x new_content w =
     (case x of
        Submission_h i \<Rightarrow>
          (case find_post i (posts w) of
             None \<Rightarrow> (Inl (ClientError ''received 403 HTTP response''), w)
           | Some _ \<Rightarrow>
               (Inr (), w\<lparr>posts := map (\<lambda>p. if m_id p = i then p\<lparr>m_selftext := new_content\<rparr> else p)
                                      (posts w)\<rparr>))
      | _ \<Rightarrow> (Inl (AttributeError ''edit''), w))"

definition m_delete :: "mobj \<Rightarrow> (mworld, unit) remote" where
  "m_delete x w =
     (case x of
        Submission_h i \<Rightarrow>
          (case find_post i (posts w) of
             None \<Rightarrow> (Inl (ClientError ''received 403 HTTP response''), w)
           | Some _ \<Rightarrow> (Inr (), w\<lparr>posts := filter (\<lambda>p. m_id p \<noteq> i) (posts w)\<rparr>))
      | _ \<Rightarrow> (Inl (AttributeError ''delete''), w))"

definition memory_praw :: "(mworld, mobj) praw" where
  "memory_praw =
     \<lparr>p_subreddit = (\<lambda>r name w.
        if name = [] then (Inl (ClientError ''invalid subreddit''), w)
        else (Inr (Subreddit_h name), w)),
      p_submit = (\<lambda>sub title bd.
        case bd of Selftext c \<Rightarrow> m_submit_post title c [] | Url u \<Rightarrow> m_submit_post title [] u),
      p_submit_image = (\<lambda>sub title path w. (Inl (ClientError ''no such file''), w)),
      p_submission = (\<lambda>r i w.
        case i of PStr x \<Rightarrow> (Inr (Submission_h x), w)
        | _ \<Rightarrow> (Inl (ClientError ''invalid id''), w)),
      p_getattr = m_getattr,
      p_edit = m_edit,
      p_delete = m_delete,
      p_user_me = (\<lambda>r w.
        case s_username r of None \<Rightarrow> (Inl (ClientError ''received 401 HTTP response''), w)
        | Some u \<Rightarrow> (Inr (Redditor_h u), w)),
      p_submissions_new = (\<lambda>user limit w.
        (Inr (map (\<lambda>p. Inr (Submission_h (m_id p))) (take (nat limit) (posts w))), w)),
      fromtimestamp = (\<lambda>v. case v of PObj (Opaque t) \<Rightarrow> Inr (PObj (Opaque t))
                             | _ \<Rightarrow> Inl (ClientError ''a float is required'')),
      obj_str = (\<lambda>x. case x of Subreddit_h n \<Rightarrow> n | Submission_h i \<Rightarrow> i
                       | Redditor_h u \<Rightarrow> u | Opaque t \<Rightarrow> t),
      obj_bool = (\<lambda>x. x \<noteq> Opaque ''0'')\<rparr>"

text \<open>The same client with a listing that does not look at the limit.\<close>

definition unlimited_praw :: "(mworld, mobj) praw" where
  "unlimited_praw =
     memory_praw\<lparr>p_submissions_new := (\<lambda>user limit w.
        (Inr (map (\<lambda>p. Inr (Submission_h (m_id p))) (posts w)), w))\<rparr>"

definition full_env :: env where
  "full_env = [''REDDIT_CLIENT_ID'' \<mapsto> ''cid'', ''REDDIT_CLIENT_SECRET'' \<mapsto> ''secret'',
               ''REDDIT_USERNAME'' \<mapsto> ''me'', ''REDDIT_PASSWORD'' \<mapsto> ''pw'',
               ''REDDIT_USER_AGENT'' \<mapsto> ''agent'']"

definition world0 :: mworld where
  "world0 = \<lparr>posts = [], fresh_ids = [''abc123'', ''abc124'']\<rparr>"

definition partial_env :: env where
  "partial_env = [''REDDIT_CLIENT_ID'' \<mapsto> ''abc'', ''REDDIT_USERNAME'' \<mapsto> []]"

text \<open>The state right after \<^verbatim>\<open>RedditManager()\<close> on \<open>full_env\<close> and \<open>world0\<close>.\<close>

definition state0 :: "(mworld, mobj) st" where
  "state0 =
     \<lparr>facade = \<lparr>client_id = Some ''cid'', client_secret = Some ''secret'',
                 username = Some ''me'', password = Some ''pw'', user_agent = Some ''agent'',
                 reddit = \<lparr>s_client_id = Some ''cid'', s_client_secret = Some ''secret'',
                            s_user_agent = Some ''agent'', s_username = Some ''me'',
                            s_password = Some ''pw''\<rparr>,
                 logger = ''RedditManager''\<rparr>,
      remote = world0, calls = [],
      logs = [(INFO, ''Reddit Manager initialized successfully'')]\<rparr>"

text \<open>States in which one post, or two posts, exist on the remote side.\<close>

definition world1 :: mworld where
  "world1 = \<lparr>posts = [\<lparr>m_id = ''abc123'', m_title = ''Hello'', m_selftext = ''Hi there'',
                         m_url = []\<rparr>],
             fresh_ids = [''abc124'']\<rparr>"

definition state1 :: "(mworld, mobj) st" where
  "state1 = state0\<lparr>remote := world1\<rparr>"

definition world2 :: mworld where
  "world2 = \<lparr>posts = [\<lparr>m_id = ''abc124'', m_title = ''Second'', m_selftext = ''More'',
                         m_url = []\<rparr>,
                      \<lparr>m_id = ''abc123'', m_title = ''Hello'', m_selftext = ''Hi there'',
                         m_url = []\<rparr>],
             fresh_ids = []\<rparr>"

definition state2 :: "(mworld, mobj) st" where
  "state2 = state0\<lparr>remote := world2\<rparr>"

text \<open>What a user enters to update the first post of the list, and to read a post.\<close>

definition update_inputs :: inputs where
  "update_inputs =
     \<lparr>platform_choice = 0, operation_choice = 2, subreddit_name_text = [], title_text = [],
      content_text = [], post_type_choice = 0, post_choice = 0,
      new_content_text = ''Edited'', button_clicked = True\<rparr>"

definition read_inputs :: inputs where
  "read_inputs =
     \<lparr>platform_choice = 0, operation_choice = 1, subreddit_name_text = [], title_text = [],
      content_text = [], post_type_choice = 0, post_choice = 0,
      new_content_text = [], button_clicked = False\<rparr>"

section \<open>Notions used in the statements\<close>

text \<open>Attribute reads on one object, one after the other, stopping at the first that raises.\<close>

fun getattrs :: "('w, 'o) praw \<Rightarrow> 'o \<Rightarrow> string list \<Rightarrow> ('w, 'o pyval list) remote" where
  "getattrs b x [] w = (Inr [], w)"
| "getattrs b x (n # ns) w =
     (case p_getattr b x n w of
        (Inl e, w') \<Rightarrow> (Inl e, w')
      | (Inr v, w') \<Rightarrow> (case getattrs b x ns w' of
                          (Inl e, w'') \<Rightarrow> (Inl e, w'')
                        | (Inr vs, w'') \<Rightarrow> (Inr (v # vs), w'')))"

text \<open>The attributes \<^verbatim>\<open>read_post\<close> reads, in the order it reads them.\<close>

definition post_attrs :: "string list" where
  "post_attrs = [''id'', ''title'', ''selftext'', ''score'', ''url'', ''created_utc'',
                 ''author'', ''num_comments'']"

text \<open>The links a page shows.\<close>

fun markdowns :: "'o element list \<Rightarrow> string list" where
  "markdowns [] = []"
| "markdowns (St_markdown m # xs) = m # markdowns xs"
| "markdowns (x # xs) = markdowns xs"


text \<open>
  What consuming a listing gives on the remote side: for each item its title is read,
  then its id; the first step of the listing or read that raises ends it.
\<close>

fun entries :: "('w, 'o) praw \<Rightarrow> (exn + 'o) list \<Rightarrow> ('w, 'o dict list) remote" where
  "entries b [] w = (Inr [], w)"
| "entries b (Inl e # rest) w = (Inl e, w)"
| "entries b (Inr post # rest) w =
     (case p_getattr b post ''title'' w of
        (Inl e, w') \<Rightarrow> (Inl e, w')
      | (Inr v_title, w') \<Rightarrow>
          (case p_getattr b post ''id'' w' of
             (Inl e, w'') \<Rightarrow> (Inl e, w'')
           | (Inr v_id, w'') \<Rightarrow>
               (case entries b rest w'' of
                  (Inl e, w''') \<Rightarrow> (Inl e, w''')
                | (Inr ds, w''') \<Rightarrow> (Inr ([(''title'', v_title), (''id'', v_id)] # ds), w'''))))"

text \<open>The submission calls among the calls made on the client.\<close>

fun submits :: "'o call list \<Rightarrow> 'o call list" where
  "submits [] = []"
| "submits (CSubmit sub t bd # cs) = CSubmit sub t bd # submits cs"
| "submits (CSubmitImage sub t p # cs) = CSubmitImage sub t p # submits cs"
| "submits (c # cs) = submits cs"

text \<open>
  An entry of the list \<^verbatim>\<open>get_recent_posts\<close> returns is made from a post when its two
  values are what reading the post's title and then its id gave.
\<close>

definition entry_of :: "('w, 'o) praw \<Rightarrow> 'o dict \<Rightarrow> 'o \<Rightarrow> bool" where
  "entry_of b d post \<longleftrightarrow>
     (\<exists>v_title v_id w w' w''.
        p_getattr b post ''title'' w = (Inr v_title, w') \<and>
        p_getattr b post ''id'' w' = (Inr v_id, w'') \<and>
        d = [(''title'', v_title), (''id'', v_id)])"

text \<open>The links on a page, and the link of the update flow with \<^verbatim>\<open>unknown\<close> as subreddit.\<close>

definition links :: "('w, 'o) page \<Rightarrow> string list" where
  "links p = markdowns (rendered p)"

definition updated_link :: "string \<Rightarrow> string" where
  "updated_link pid =
     ''[View Updated Post on Reddit](https://www.reddit.com/r/unknown/comments/'' @ pid @ ''/)''"

definition adds_updated_link :: "string list \<Rightarrow> string list \<Rightarrow> bool" where
  "adds_updated_link before after \<longleftrightarrow>
     after = before \<or> (\<exists>pid. after = before @ [updated_link pid])"

text \<open>The name \<^verbatim>\<open>reddit_manager\<close> is unbound; a page has only gained elements.\<close>

definition unbound :: "('w, 'o) page \<Rightarrow> bool" where
  "unbound p \<longleftrightarrow> reddit_manager p = None"

definition grows :: "('w, 'o) page \<Rightarrow> ('w, 'o) page \<Rightarrow> bool" where
  "grows p p' \<longleftrightarrow> (\<exists>xs. rendered p' = rendered p @ xs)"

text \<open>What using the unbound name raises.\<close>

definition name_error :: exn where
  "name_error = NameError (''name '' @ [CHR 0x27] @ ''reddit_manager'' @ [CHR 0x27] @
                           '' is not defined'')"

section \<open>Rules for the combinators\<close>

lemma bindE_Inr_E:
  assumes "bindE m f s = (Inr y, s')"
  obtains x s1 where "m s = (Inr x, s1)" and "f x s1 = (Inr y, s')"
  using assms by (auto simp: bindE_def split: prod.splits sum.splits)

lemma client_Inr_E:
  assumes "client c f s = (Inr x, s1)"
  obtains w1 where "f (remote s) = (Inr x, w1)"
    and "s1 = s\<lparr>remote := w1, calls := calls s @ [c]\<rparr>"
  using assms by (auto simp: client_def split: prod.splits)

lemma self_reddit_eq:
  "self_reddit s = (r, s1) \<longleftrightarrow> r = Inr (reddit (facade s)) \<and> s1 = s"
  by (auto simp: self_reddit_def)

lemma getattrs_Cons_Inr:
  "getattrs b x (n # ns) w = (Inr vs, w2) \<longleftrightarrow>
     (\<exists>v w' vs'. p_getattr b x n w = (Inr v, w') \<and> getattrs b x ns w' = (Inr vs', w2) \<and>
                 vs = v # vs')"
  by (auto split: prod.splits sum.splits)

lemma getattrs_Nil_Inr: "getattrs b x [] w = (Inr vs, w2) \<longleftrightarrow> vs = [] \<and> w2 = w"
  by auto

text \<open>A handler that logs and returns a fixed value never raises.\<close>

lemma log_and_return:
  "bindE (logger_error msg) (\<lambda>_. ret v) s = (Inr v, s\<lparr>logs := logs s @ [(ERROR, msg)]\<rparr>)"
  by (simp add: bindE_def logger_error_def ret_def)

lemma try_log_E:
  assumes "try_except m (\<lambda>e. bindE (logger_error (msg e)) (\<lambda>_. ret v)) s = (r, s')"
  obtains (returned) x where "m s = (Inr x, s')" and "r = Inr x"
  | (handled) e s1 where "m s = (Inl e, s1)" and "r = Inr v"
      and "s' = s1\<lparr>logs := logs s1 @ [(ERROR, msg e)]\<rparr>"
  using assms by (auto simp: try_except_def log_and_return split: prod.splits sum.splits)

lemma try_log_total:
  "\<exists>y. fst (try_except m (\<lambda>e. bindE (logger_error (msg e)) (\<lambda>_. ret v)) s) = Inr y"
  by (simp add: try_except_def log_and_return split: prod.splits sum.splits)

lemma submits_append [simp]: "submits (xs @ ys) = submits xs @ submits ys"
  by (induction xs rule: submits.induct) simp_all

subsection \<open>What a computation leaves unchanged\<close>

lemma bindE_keeps:
  assumes "\<And>s. g (snd (m s)) = g s" and "\<And>x s. g (snd (f x s)) = g s"
  shows "g (snd (bindE m f s)) = g s"
proof (cases "m s")
  case (Pair r s1)
  with assms(1) [of s] have "g s1 = g s" by simp
  with Pair assms(2) show ?thesis
    by (cases r) (simp_all add: bindE_def)
qed

lemma try_except_keeps:
  assumes "\<And>s. g (snd (m s)) = g s" and "\<And>e s. g (snd (h e s)) = g s"
  shows "g (snd (try_except m h s)) = g s"
proof (cases "m s")
  case (Pair r s1)
  with assms(1) [of s] have "g s1 = g s" by simp
  with Pair assms(2) show ?thesis
    by (cases r) (simp_all add: try_except_def)
qed

lemma if_keeps:
  assumes "g (snd (m1 s)) = g s" and "g (snd (m2 s)) = g s"
  shows "g (snd ((if c then m1 else m2) s)) = g s"
  using assms by simp

lemma simple_keeps:
  "g (snd (ret x s)) = g s" "g (snd (raiseE e s)) = g s" "g (snd (lift r s)) = g s"
  by (simp_all add: ret_def raiseE_def lift_def)

lemma self_reddit_keeps: "g (snd (self_reddit s)) = g s"
  by (simp add: self_reddit_def)

lemma client_keeps_facade: "facade (snd (client c f s)) = facade s"
  by (simp add: client_def split: prod.splits)

lemma logger_keeps_facade:
  "facade (snd (logger_info msg s)) = facade s" "facade (snd (logger_error msg s)) = facade s"
  by (simp_all add: logger_info_def logger_error_def)

lemma posts_data_keeps_facade: "facade (snd (posts_data b xs s)) = facade s"
proof (induction b xs arbitrary: s rule: posts_data.induct)
  case (1 b)
  show ?case by (simp add: simple_keeps)
next
  case (2 b e rest)
  show ?case by (simp add: simple_keeps)
next
  case (3 b post rest)
  show ?case
    by (simp, intro bindE_keeps client_keeps_facade "3.IH" simple_keeps)
qed

lemmas keeps_facade = bindE_keeps try_except_keeps if_keeps client_keeps_facade simple_keeps
  self_reddit_keeps logger_keeps_facade posts_data_keeps_facade

lemma create_post_keeps_facade: "facade (snd (create_post b n t c k s)) = facade s"
  unfolding create_post_def by (intro keeps_facade)

lemma read_post_keeps_facade: "facade (snd (read_post b i s)) = facade s"
  unfolding read_post_def by (intro keeps_facade)

lemma update_post_keeps_facade: "facade (snd (update_post b i c s)) = facade s"
  unfolding update_post_def by (intro keeps_facade)

lemma delete_post_keeps_facade: "facade (snd (delete_post b i s)) = facade s"
  unfolding delete_post_def by (intro keeps_facade)

lemma get_recent_posts_keeps_facade: "facade (snd (get_recent_posts b l s)) = facade s"
  unfolding get_recent_posts_def by (intro keeps_facade)

lemma run_operation_keeps_facade: "facade (run_operation b x s) = facade s"
  by (cases x)
    (simp_all add: create_post_call_def get_recent_posts_call_def create_post_keeps_facade
      read_post_keeps_facade update_post_keeps_facade delete_post_keeps_facade
      get_recent_posts_keeps_facade)

section \<open>Evaluating the in-memory client\<close>

lemmas monad_defs = bindE_def ret_def raiseE_def try_except_def client_def logger_info_def
  logger_error_def self_reddit_def lift_def

lemma memory_sel:
  "p_subreddit memory_praw = (\<lambda>r name w.
        if name = [] then (Inl (ClientError ''invalid subreddit''), w)
        else (Inr (Subreddit_h name), w))"
  "p_submit memory_praw = (\<lambda>sub title bd.
        case bd of Selftext c \<Rightarrow> m_submit_post title c [] | Url u \<Rightarrow> m_submit_post title [] u)"
  "p_submit_image memory_praw = (\<lambda>sub title path w. (Inl (ClientError ''no such file''), w))"
  "p_submission memory_praw = (\<lambda>r i w.
        case i of PStr x \<Rightarrow> (Inr (Submission_h x), w)
        | _ \<Rightarrow> (Inl (ClientError ''invalid id''), w))"
  "p_getattr memory_praw = m_getattr"
  "p_edit memory_praw = m_edit"
  "p_delete memory_praw = m_delete"
  "p_user_me memory_praw = (\<lambda>r w.
        case s_username r of None \<Rightarrow> (Inl (ClientError ''received 401 HTTP response''), w)
        | Some u \<Rightarrow> (Inr (Redditor_h u), w))"
  "p_submissions_new memory_praw = (\<lambda>user limit w.
        (Inr (map (\<lambda>p. Inr (Submission_h (m_id p))) (take (nat limit) (posts w))), w))"
  "fromtimestamp memory_praw = (\<lambda>v. case v of PObj (Opaque t) \<Rightarrow> Inr (PObj (Opaque t))
                             | _ \<Rightarrow> Inl (ClientError ''a float is required''))"
  "obj_str memory_praw = (\<lambda>x. case x of Subreddit_h n \<Rightarrow> n | Submission_h i \<Rightarrow> i
                       | Redditor_h u \<Rightarrow> u | Opaque t \<Rightarrow> t)"
  "obj_bool memory_praw = (\<lambda>x. x \<noteq> Opaque ''0'')"
  by (simp_all add: memory_praw_def)

lemma state0_sel:
  "remote state0 = world0" "calls state0 = []"
  "logs state0 = [(INFO, ''Reddit Manager initialized successfully'')]"
  "s_username (reddit (facade state0)) = Some ''me''"
  by (simp_all add: state0_def)

lemma state1_sel:
  "remote state1 = world1" "calls state1 = []"
  "logs state1 = [(INFO, ''Reddit Manager initialized successfully'')]"
  "s_username (reddit (facade state1)) = Some ''me''"
  by (simp_all add: state1_def state0_sel)

lemma state2_sel:
  "remote state2 = world2" "calls state2 = []"
  "logs state2 = [(INFO, ''Reddit Manager initialized successfully'')]"
  "s_username (reddit (facade state2)) = Some ''me''"
  by (simp_all add: state2_def state0_sel)

lemmas memory_eval = memory_sel m_submit_post_def m_getattr_def m_edit_def m_delete_def
  state0_sel state1_sel state2_sel world0_def world1_def world2_def

lemma init_full_env: "RedditManager_init full_env world0 = Inr state0"
  by (simp add: state0_def RedditManager_init_def full_env_def missing_vars_def
      required_vars_def not_getenv_def praw_Reddit_def Let_def)

section \<open>Construction (C3)\<close>

lemma not_getenv_iff: "not_getenv env v \<longleftrightarrow> (env v = None \<or> env v = Some [])"
  by (simp add: not_getenv_def split: option.splits)

lemma set_missing_vars:
  "set (missing_vars env) = {v \<in> set required_vars. env v = None \<or> env v = Some []}"
  by (auto simp: missing_vars_def not_getenv_iff)

lemma distinct_missing_vars: "distinct (missing_vars env)"
  by (simp add: missing_vars_def required_vars_def)

lemma missing_vars_Nil_iff:
  "missing_vars env = [] \<longleftrightarrow> \<not> (\<exists>v\<in>set required_vars. env v = None \<or> env v = Some [])"
  by (simp add: missing_vars_def filter_empty_conv not_getenv_iff)

text \<open>
  C3. \<^verbatim>\<open>RedditManager()\<close> raises exactly when one of the five required variables is
  unset or empty, and the \<^verbatim>\<open>ValueError\<close> it raises lists every such variable, each once
  and no other, after the fixed prefix and separated by commas.
\<close>

theorem init_fails_iff_missing:
  "((\<exists>e. (RedditManager_init env w :: exn + ('w, 'o) st) = Inl e) \<longleftrightarrow>
      (\<exists>v\<in>set required_vars. env v = None \<or> env v = Some [])) \<and>
   (\<forall>e. (RedditManager_init env w :: exn + ('w, 'o) st) = Inl e \<longrightarrow>
      e = ValueError (''Missing required environment variables: '' @
                      join '', '' (missing_vars env)) \<and>
      distinct (missing_vars env) \<and>
      set (missing_vars env) = {v \<in> set required_vars. env v = None \<or> env v = Some []})"
proof -
  have a: "(\<exists>e. (RedditManager_init env w :: exn + ('w, 'o) st) = Inl e) \<longleftrightarrow>
           missing_vars env \<noteq> []"
    by (simp add: RedditManager_init_def Let_def)
  have b: "\<And>e. (RedditManager_init env w :: exn + ('w, 'o) st) = Inl e \<Longrightarrow>
      e = ValueError (''Missing required environment variables: '' @
                      join '', '' (missing_vars env))"
    by (simp add: RedditManager_init_def Let_def split: if_splits)
  show ?thesis
    using a b missing_vars_Nil_iff [of env] distinct_missing_vars [of env]
      set_missing_vars [of env]
    by blast
qed

theorem init_fails_iff_missing_witness:
  "(RedditManager_init partial_env world0 :: exn + (mworld, mobj) st) =
     Inl (ValueError (''Missing required environment variables: '' @
            ''REDDIT_CLIENT_SECRET, REDDIT_USERNAME, REDDIT_PASSWORD, REDDIT_USER_AGENT'')) \<and>
   set (missing_vars partial_env) =
     {''REDDIT_CLIENT_SECRET'', ''REDDIT_USERNAME'', ''REDDIT_PASSWORD'', ''REDDIT_USER_AGENT''}"
proof -
  have m: "missing_vars partial_env =
      [''REDDIT_CLIENT_SECRET'', ''REDDIT_USERNAME'', ''REDDIT_PASSWORD'', ''REDDIT_USER_AGENT'']"
    by (simp add: missing_vars_def required_vars_def not_getenv_def partial_env_def)
  note t = init_fails_iff_missing [of partial_env world0, where 'o = mobj]
  have "\<exists>v\<in>set required_vars. partial_env v = None \<or> partial_env v = Some []"
    by (simp add: required_vars_def partial_env_def)
  with t obtain e
    where e: "(RedditManager_init partial_env world0 :: exn + (mworld, mobj) st) = Inl e"
    by blast
  with t have "e = ValueError (''Missing required environment variables: '' @
                      join '', '' (missing_vars partial_env))"
    by blast
  with e m show ?thesis by simp
qed

section \<open>\<^verbatim>\<open>update_post\<close> and \<^verbatim>\<open>delete_post\<close> (C5)\<close>

text \<open>
  C5. \<^verbatim>\<open>update_post\<close> and \<^verbatim>\<open>delete_post\<close> never raise and return a boolean. It is
  \<open>True\<close> exactly when looking the post up and the edit (the delete) both returned without
  an exception, and \<open>False\<close> in every other case, whatever the client raised.
\<close>

theorem update_delete_return_bool:
  "(\<exists>flag. fst (update_post b post_id new_content s) = Inr flag \<and>
      (flag \<longleftrightarrow> (\<exists>post w1 w2.
          p_submission b (reddit (facade s)) post_id (remote s) = (Inr post, w1) \<and>
          p_edit b post new_content w1 = (Inr (), w2)))) \<and>
   (\<exists>flag. fst (delete_post b post_id s) = Inr flag \<and>
      (flag \<longleftrightarrow> (\<exists>post w1 w2.
          p_submission b (reddit (facade s)) post_id (remote s) = (Inr post, w1) \<and>
          p_delete b post w1 = (Inr (), w2))))"
proof
  show "\<exists>flag. fst (update_post b post_id new_content s) = Inr flag \<and>
      (flag \<longleftrightarrow> (\<exists>post w1 w2.
          p_submission b (reddit (facade s)) post_id (remote s) = (Inr post, w1) \<and>
          p_edit b post new_content w1 = (Inr (), w2)))"
    by (auto simp add: update_post_def monad_defs split: prod.splits sum.splits)
  show "\<exists>flag. fst (delete_post b post_id s) = Inr flag \<and>
      (flag \<longleftrightarrow> (\<exists>post w1 w2.
          p_submission b (reddit (facade s)) post_id (remote s) = (Inr post, w1) \<and>
          p_delete b post w1 = (Inr (), w2)))"
    by (auto simp add: delete_post_def monad_defs split: prod.splits sum.splits)
qed

theorem update_delete_return_bool_witness:
  "fst (update_post memory_praw (PStr ''abc123'') ''Edited'' state1) = Inr True \<and>
   fst (delete_post memory_praw (PStr ''zzz'') state1) = Inr False"
proof -
  have u: "p_submission memory_praw (reddit (facade state1)) (PStr ''abc123'') (remote state1) =
             (Inr (Submission_h ''abc123''), world1)"
    by (simp add: memory_eval)
  have e: "\<exists>w2. p_edit memory_praw (Submission_h ''abc123'') ''Edited'' world1 = (Inr (), w2)"
    by (simp add: memory_eval)
  have d: "\<And>post w1. p_submission memory_praw (reddit (facade state1)) (PStr ''zzz'') (remote state1)
              = (Inr post, w1) \<Longrightarrow> \<exists>e. p_delete memory_praw post w1 = (Inl e, w1)"
    by (auto simp add: memory_eval)
  from update_delete_return_bool [of memory_praw "PStr ''abc123''" "''Edited''" state1]
  obtain flag where f: "fst (update_post memory_praw (PStr ''abc123'') ''Edited'' state1) = Inr flag"
    and fi: "flag \<longleftrightarrow> (\<exists>post w1 w2.
          p_submission memory_praw (reddit (facade state1)) (PStr ''abc123'') (remote state1)
            = (Inr post, w1) \<and>
          p_edit memory_praw post ''Edited'' w1 = (Inr (), w2))"
    by blast
  from u e have "\<exists>post w1 w2.
          p_submission memory_praw (reddit (facade state1)) (PStr ''abc123'') (remote state1)
            = (Inr post, w1) \<and>
          p_edit memory_praw post ''Edited'' w1 = (Inr (), w2)"
    by blast
  with fi f have a: "fst (update_post memory_praw (PStr ''abc123'') ''Edited'' state1) = Inr True"
    by simp
  from update_delete_return_bool [of memory_praw "PStr ''zzz''" "[]" state1]
  obtain flag' where g: "fst (delete_post memory_praw (PStr ''zzz'') state1) = Inr flag'"
    and gi: "flag' \<longleftrightarrow> (\<exists>post w1 w2.
          p_submission memory_praw (reddit (facade state1)) (PStr ''zzz'') (remote state1)
            = (Inr post, w1) \<and>
          p_delete memory_praw post w1 = (Inr (), w2))"
    by blast
  from d have "\<not> (\<exists>post w1 w2.
          p_submission memory_praw (reddit (facade state1)) (PStr ''zzz'') (remote state1)
            = (Inr post, w1) \<and>
          p_delete memory_praw post w1 = (Inr (), w2))"
    by fastforce
  with gi g have "fst (delete_post memory_praw (PStr ''zzz'') state1) = Inr False"
    by simp
  with a show ?thesis by simp
qed

section \<open>The attributes of the facade are never assigned (C9)\<close>

text \<open>
  C9. Whatever sequence of \<^verbatim>\<open>create_post\<close>, \<^verbatim>\<open>read_post\<close>, \<^verbatim>\<open>update_post\<close>,
  \<^verbatim>\<open>delete_post\<close> and \<^verbatim>\<open>get_recent_posts\<close> calls is run, the attributes of the instance
  (the five credentials, the session handle and the logger) are afterwards what they were
  before.
\<close>

theorem operations_keep_facade: "facade (run_operations b ops s) = facade s"
  by (induction ops arbitrary: s) (simp_all add: run_operation_keeps_facade)

section \<open>The default kind (C10)\<close>

text \<open>
  C10. A call of \<^verbatim>\<open>create_post\<close> that leaves \<^verbatim>\<open>post_type\<close> out does what the same call
  with \<^verbatim>\<open>post_type='text'\<close> does: the same result and the same effects.
\<close>

theorem create_post_default_kind:
  "create_post_call b subreddit_name title content None =
   create_post_call b subreddit_name title content (Some ''text'')"
  by (simp add: create_post_call_def)

section \<open>\<^verbatim>\<open>create_post\<close> (C7, C2)\<close>

lemma create_post_total: "\<exists>r. fst (create_post b n t c k s) = Inr r"
  unfolding create_post_def by (rule try_log_total)

lemma create_post_None_logged:
  assumes "create_post b n t c k s = (Inr None, s')"
  shows "\<exists>e. logs s' \<noteq> [] \<and> last (logs s') = (ERROR, ''Error creating post: '' @ str_exn e)"
  using assms unfolding create_post_def
proof (cases rule: try_log_E)
  case (returned x)
  then show ?thesis
    by (elim bindE_Inr_E) (simp add: ret_def)
next
  case (handled e s1)
  then show ?thesis by auto
qed

lemma create_post_text_Some:
  "create_post b n t c ''text'' s = (Inr (Some i), s') \<longleftrightarrow>
     (\<exists>sub w1 post w2 i0 w3 w4.
        p_subreddit b (reddit (facade s)) n (remote s) = (Inr sub, w1) \<and>
        p_submit b sub t (Selftext c) w1 = (Inr post, w2) \<and>
        p_getattr b post ''id'' w2 = (Inr i0, w3) \<and>
        p_getattr b post ''id'' w3 = (Inr i, w4) \<and>
        s' = s\<lparr>remote := w4,
               calls := calls s @ [CSubreddit n, CSubmit sub t (Selftext c),
                                   CGetattr post ''id'', CGetattr post ''id''],
               logs := logs s @ [(INFO, ''Created post: '' @ py_str b i0)]\<rparr>)"
  (is "?L \<longleftrightarrow> ?R")
proof
  assume ?L
  then show ?R
    unfolding create_post_def
  proof (cases rule: try_log_E)
    case (returned x)
    then show ?thesis
      by (elim bindE_Inr_E client_Inr_E)
        (auto simp add: self_reddit_eq logger_info_def ret_def elim!: client_Inr_E)
  next
    case (handled e s1)
    then show ?thesis by simp
  qed
next
  assume ?R
  then show ?L
    by (auto simp add: create_post_def monad_defs)
qed

lemma create_post_link_Some:
  "create_post b n t c ''link'' s = (Inr (Some i), s') \<longleftrightarrow>
     (\<exists>sub w1 post w2 i0 w3 w4.
        p_subreddit b (reddit (facade s)) n (remote s) = (Inr sub, w1) \<and>
        p_submit b sub t (Url c) w1 = (Inr post, w2) \<and>
        p_getattr b post ''id'' w2 = (Inr i0, w3) \<and>
        p_getattr b post ''id'' w3 = (Inr i, w4) \<and>
        s' = s\<lparr>remote := w4,
               calls := calls s @ [CSubreddit n, CSubmit sub t (Url c),
                                   CGetattr post ''id'', CGetattr post ''id''],
               logs := logs s @ [(INFO, ''Created post: '' @ py_str b i0)]\<rparr>)"
  (is "?L \<longleftrightarrow> ?R")
proof
  assume ?L
  then show ?R
    unfolding create_post_def
  proof (cases rule: try_log_E)
    case (returned x)
    then show ?thesis
      by (elim bindE_Inr_E client_Inr_E)
        (auto simp add: self_reddit_eq logger_info_def ret_def elim!: client_Inr_E)
  next
    case (handled e s1)
    then show ?thesis by simp
  qed
next
  assume ?R
  then show ?L
    by (auto simp add: create_post_def monad_defs)
qed

lemma create_post_image_Some:
  "create_post b n t c ''image'' s = (Inr (Some i), s') \<longleftrightarrow>
     (\<exists>sub w1 post w2 i0 w3 w4.
        p_subreddit b (reddit (facade s)) n (remote s) = (Inr sub, w1) \<and>
        p_submit_image b sub t c w1 = (Inr post, w2) \<and>
        p_getattr b post ''id'' w2 = (Inr i0, w3) \<and>
        p_getattr b post ''id'' w3 = (Inr i, w4) \<and>
        s' = s\<lparr>remote := w4,
               calls := calls s @ [CSubreddit n, CSubmitImage sub t c,
                                   CGetattr post ''id'', CGetattr post ''id''],
               logs := logs s @ [(INFO, ''Created post: '' @ py_str b i0)]\<rparr>)"
  (is "?L \<longleftrightarrow> ?R")
proof
  assume ?L
  then show ?R
    unfolding create_post_def
  proof (cases rule: try_log_E)
    case (returned x)
    then show ?thesis
      by (elim bindE_Inr_E client_Inr_E)
        (auto simp add: self_reddit_eq logger_info_def ret_def elim!: client_Inr_E)
  next
    case (handled e s1)
    then show ?thesis by simp
  qed
next
  assume ?R
  then show ?L
    by (auto simp add: create_post_def monad_defs)
qed

lemma create_post_text_submits:
  "submits (calls (snd (create_post b n t c ''text'' s))) = submits (calls s) \<or>
   (\<exists>sub. submits (calls (snd (create_post b n t c ''text'' s))) =
           submits (calls s) @ [CSubmit sub t (Selftext c)])"
  by (auto simp add: create_post_def monad_defs split: prod.splits sum.splits)

lemma create_post_link_submits:
  "submits (calls (snd (create_post b n t c ''link'' s))) = submits (calls s) \<or>
   (\<exists>sub. submits (calls (snd (create_post b n t c ''link'' s))) =
           submits (calls s) @ [CSubmit sub t (Url c)])"
  by (auto simp add: create_post_def monad_defs split: prod.splits sum.splits)

lemma create_post_image_submits:
  "submits (calls (snd (create_post b n t c ''image'' s))) = submits (calls s) \<or>
   (\<exists>sub. submits (calls (snd (create_post b n t c ''image'' s))) =
           submits (calls s) @ [CSubmitImage sub t c])"
  by (auto simp add: create_post_def monad_defs split: prod.splits sum.splits)

text \<open>
  C7. \<^verbatim>\<open>create_post\<close> never raises. For \<^verbatim>\<open>'text'\<close> it returns an id exactly when the
  subreddit lookup, \<^verbatim>\<open>submit(title, selftext=content)\<close> and the two reads of the new
  post's \<^verbatim>\<open>id\<close> all return; the id is the one read last, and "Created post" is logged. For
  \<^verbatim>\<open>'link'\<close> the same holds with \<^verbatim>\<open>submit(title, url=content)\<close>, for \<^verbatim>\<open>'image'\<close> with
  \<^verbatim>\<open>submit_image(title, image_path=content)\<close>. No other submission call is made for the
  kind. Whenever the result is \<open>None\<close>, the last log record is the error diagnostic with
  the text of the exception, whatever the exception was.
\<close>

theorem create_post_dispatch:
  "(\<exists>r. fst (create_post b n t c k s) = Inr r) \<and>
   (create_post b n t c k s = (Inr None, s'') \<longrightarrow>
      (\<exists>e. logs s'' \<noteq> [] \<and>
           last (logs s'') = (ERROR, ''Error creating post: '' @ str_exn e))) \<and>
   (create_post b n t c ''text'' s = (Inr (Some i), s') \<longleftrightarrow>
      (\<exists>sub w1 post w2 i0 w3 w4.
        p_subreddit b (reddit (facade s)) n (remote s) = (Inr sub, w1) \<and>
        p_submit b sub t (Selftext c) w1 = (Inr post, w2) \<and>
        p_getattr b post ''id'' w2 = (Inr i0, w3) \<and>
        p_getattr b post ''id'' w3 = (Inr i, w4) \<and>
        s' = s\<lparr>remote := w4,
               calls := calls s @ [CSubreddit n, CSubmit sub t (Selftext c),
                                   CGetattr post ''id'', CGetattr post ''id''],
               logs := logs s @ [(INFO, ''Created post: '' @ py_str b i0)]\<rparr>)) \<and>
   (create_post b n t c ''link'' s = (Inr (Some i), s') \<longleftrightarrow>
      (\<exists>sub w1 post w2 i0 w3 w4.
        p_subreddit b (reddit (facade s)) n (remote s) = (Inr sub, w1) \<and>
        p_submit b sub t (Url c) w1 = (Inr post, w2) \<and>
        p_getattr b post ''id'' w2 = (Inr i0, w3) \<and>
        p_getattr b post ''id'' w3 = (Inr i, w4) \<and>
        s' = s\<lparr>remote := w4,
               calls := calls s @ [CSubreddit n, CSubmit sub t (Url c),
                                   CGetattr post ''id'', CGetattr post ''id''],
               logs := logs s @ [(INFO, ''Created post: '' @ py_str b i0)]\<rparr>)) \<and>
   (create_post b n t c ''image'' s = (Inr (Some i), s') \<longleftrightarrow>
      (\<exists>sub w1 post w2 i0 w3 w4.
        p_subreddit b (reddit (facade s)) n (remote s) = (Inr sub, w1) \<and>
        p_submit_image b sub t c w1 = (Inr post, w2) \<and>
        p_getattr b post ''id'' w2 = (Inr i0, w3) \<and>
        p_getattr b post ''id'' w3 = (Inr i, w4) \<and>
        s' = s\<lparr>remote := w4,
               calls := calls s @ [CSubreddit n, CSubmitImage sub t c,
                                   CGetattr post ''id'', CGetattr post ''id''],
               logs := logs s @ [(INFO, ''Created post: '' @ py_str b i0)]\<rparr>)) \<and>
   (submits (calls (snd (create_post b n t c ''text'' s))) = submits (calls s) \<or>
    (\<exists>sub. submits (calls (snd (create_post b n t c ''text'' s))) =
            submits (calls s) @ [CSubmit sub t (Selftext c)])) \<and>
   (submits (calls (snd (create_post b n t c ''link'' s))) = submits (calls s) \<or>
    (\<exists>sub. submits (calls (snd (create_post b n t c ''link'' s))) =
            submits (calls s) @ [CSubmit sub t (Url c)])) \<and>
   (submits (calls (snd (create_post b n t c ''image'' s))) = submits (calls s) \<or>
    (\<exists>sub. submits (calls (snd (create_post b n t c ''image'' s))) =
            submits (calls s) @ [CSubmitImage sub t c]))"
  by (intro conjI impI create_post_total create_post_None_logged create_post_text_Some
      create_post_link_Some create_post_image_Some create_post_text_submits
      create_post_link_submits create_post_image_submits)

theorem create_post_dispatch_witness:
  "create_post memory_praw ''test'' ''Hello'' ''Hi there'' ''text'' state0 =
     (Inr (Some (PStr ''abc123'')),
      state0\<lparr>remote := world1,
             calls := [CSubreddit ''test'',
                       CSubmit (Subreddit_h ''test'') ''Hello'' (Selftext ''Hi there''),
                       CGetattr (Submission_h ''abc123'') ''id'',
                       CGetattr (Submission_h ''abc123'') ''id''],
             logs := [(INFO, ''Reddit Manager initialized successfully''),
                      (INFO, ''Created post: abc123'')]\<rparr>)"
  by (rule create_post_dispatch
        [THEN conjunct2, THEN conjunct2, THEN conjunct1, THEN iffD2])
    (simp add: memory_eval)




section \<open>\<^verbatim>\<open>read_post\<close> (C6)\<close>

lemma read_post_total: "\<exists>r. fst (read_post b i s) = Inr r"
  unfolding read_post_def by (rule try_log_total)

lemma read_post_Some:
  "read_post b i s = (Inr (Some d), s') \<longleftrightarrow>
   (\<exists>post w1 v_id v_title v_selftext v_score v_url v_created v_author v_num w2 v_datetime.
        p_submission b (reddit (facade s)) i (remote s) = (Inr post, w1) \<and>
        getattrs b post post_attrs w1 =
          (Inr [v_id, v_title, v_selftext, v_score, v_url, v_created, v_author, v_num], w2) \<and>
        fromtimestamp b v_created = Inr v_datetime \<and>
        d = [(''id'', v_id), (''title'', v_title), (''content'', v_selftext), (''score'', v_score),
             (''url'', v_url), (''created_utc'', v_datetime),
             (''author'', PStr (py_str b v_author)), (''num_comments'', v_num)] \<and>
        s' = s\<lparr>remote := w2,
               calls := calls s @ CSubmission i # map (CGetattr post) post_attrs\<rparr>)"
  (is "?L \<longleftrightarrow> ?R")
proof
  assume ?L
  then show ?R
    unfolding read_post_def
  proof (cases rule: try_log_E)
    case (returned x)
    then show ?thesis
      by (elim bindE_Inr_E client_Inr_E)
        (auto simp add: self_reddit_eq lift_def ret_def post_attrs_def getattrs_Cons_Inr
          getattrs_Nil_Inr simp del: getattrs.simps)
  next
    case (handled e s1)
    then show ?thesis by simp
  qed
next
  assume ?R
  then show ?L
    by (auto simp add: read_post_def monad_defs post_attrs_def getattrs_Cons_Inr getattrs_Nil_Inr
        simp del: getattrs.simps)
qed

lemma read_post_None_logged:
  assumes "read_post b i s = (Inr None, s')"
  shows "\<exists>e. logs s' \<noteq> [] \<and> last (logs s') = (ERROR, ''Error reading post: '' @ str_exn e)"
  using assms unfolding read_post_def
proof (cases rule: try_log_E)
  case (returned x)
  then show ?thesis
    by (elim bindE_Inr_E) (simp add: ret_def)
next
  case (handled e s1)
  then show ?thesis by auto
qed

text \<open>
  C6. \<^verbatim>\<open>read_post\<close> never raises. It returns a dictionary exactly when the lookup of
  the post, the eight attribute reads and \<^verbatim>\<open>datetime.fromtimestamp\<close> all return; the
  dictionary then has the keys \<^verbatim>\<open>id, title, content, score, url, created_utc, author,
  num_comments\<close> and no other, bound to the values just read from the remote side (the
  time converted, the author as a string). In every other case it returns \<open>None\<close>, and the
  last log record is the error diagnostic.
\<close>

theorem read_post_shape:
  "(\<exists>r. fst (read_post b post_id s) = Inr r) \<and>
   (read_post b post_id s = (Inr (Some d), s') \<longleftrightarrow>
      (\<exists>post w1 v_id v_title v_selftext v_score v_url v_created v_author v_num w2 v_datetime.
        p_submission b (reddit (facade s)) post_id (remote s) = (Inr post, w1) \<and>
        getattrs b post post_attrs w1 =
          (Inr [v_id, v_title, v_selftext, v_score, v_url, v_created, v_author, v_num], w2) \<and>
        fromtimestamp b v_created = Inr v_datetime \<and>
        d = [(''id'', v_id), (''title'', v_title), (''content'', v_selftext), (''score'', v_score),
             (''url'', v_url), (''created_utc'', v_datetime),
             (''author'', PStr (py_str b v_author)), (''num_comments'', v_num)] \<and>
        s' = s\<lparr>remote := w2,
               calls := calls s @ CSubmission post_id # map (CGetattr post) post_attrs\<rparr>)) \<and>
   (read_post b post_id s = (Inr (Some d), s') \<longrightarrow>
      map fst d = [''id'', ''title'', ''content'', ''score'', ''url'', ''created_utc'',
                   ''author'', ''num_comments'']) \<and>
   (read_post b post_id s = (Inr None, s') \<longrightarrow>
      (\<exists>e. logs s' \<noteq> [] \<and> last (logs s') = (ERROR, ''Error reading post: '' @ str_exn e)))"
proof (intro conjI impI)
  show "\<exists>r. fst (read_post b post_id s) = Inr r"
    by (rule read_post_total)
  show "read_post b post_id s = (Inr (Some d), s') \<longleftrightarrow>
      (\<exists>post w1 v_id v_title v_selftext v_score v_url v_created v_author v_num w2 v_datetime.
        p_submission b (reddit (facade s)) post_id (remote s) = (Inr post, w1) \<and>
        getattrs b post post_attrs w1 =
          (Inr [v_id, v_title, v_selftext, v_score, v_url, v_created, v_author, v_num], w2) \<and>
        fromtimestamp b v_created = Inr v_datetime \<and>
        d = [(''id'', v_id), (''title'', v_title), (''content'', v_selftext), (''score'', v_score),
             (''url'', v_url), (''created_utc'', v_datetime),
             (''author'', PStr (py_str b v_author)), (''num_comments'', v_num)] \<and>
        s' = s\<lparr>remote := w2,
               calls := calls s @ CSubmission post_id # map (CGetattr post) post_attrs\<rparr>)"
    by (rule read_post_Some)
next
  assume "read_post b post_id s = (Inr (Some d), s')"
  then obtain v_id v_title v_selftext v_score v_url v_datetime v_author v_num
    where "d = [(''id'', v_id), (''title'', v_title), (''content'', v_selftext),
               (''score'', v_score), (''url'', v_url), (''created_utc'', v_datetime),
               (''author'', PStr (py_str b v_author)), (''num_comments'', v_num)]"
    unfolding read_post_Some by blast
  then show "map fst d = [''id'', ''title'', ''content'', ''score'', ''url'', ''created_utc'',
                   ''author'', ''num_comments'']"
    by simp
next
  assume "read_post b post_id s = (Inr None, s')"
  then show "\<exists>e. logs s' \<noteq> [] \<and> last (logs s') = (ERROR, ''Error reading post: '' @ str_exn e)"
    by (rule read_post_None_logged)
qed

theorem read_post_shape_witness:
  "read_post memory_praw (PStr ''abc123'') state1 =
     (Inr (Some [(''id'', PStr ''abc123''), (''title'', PStr ''Hello''),
                 (''content'', PStr ''Hi there''), (''score'', PObj (Opaque ''1'')),
                 (''url'', PStr []), (''created_utc'', PObj (Opaque ''1700000000.0'')),
                 (''author'', PStr ''me''), (''num_comments'', PObj (Opaque ''0''))]),
      state1\<lparr>calls := CSubmission (PStr ''abc123'') #
                          map (CGetattr (Submission_h ''abc123'')) post_attrs\<rparr>)"
  by (rule read_post_shape [THEN conjunct2, THEN conjunct1, THEN iffD2])
    (simp add: memory_eval post_attrs_def state1_def)

section \<open>\<^verbatim>\<open>get_recent_posts\<close> (C4)\<close>

lemma posts_data_entries:
  "fst (posts_data b xs s) = fst (entries b xs (remote s)) \<and>
   remote (snd (posts_data b xs s)) = snd (entries b xs (remote s))"
proof (induction b xs arbitrary: s rule: posts_data.induct)
  case (1 b)
  show ?case by (simp add: ret_def)
next
  case (2 b e rest)
  show ?case by (simp add: raiseE_def)
next
  case (3 b post rest)
  show ?case
  proof (cases "p_getattr b post ''title'' (remote s)")
    case t: (Pair r1 w1)
    show ?thesis
    proof (cases r1)
      case (Inl e)
      with t show ?thesis by (simp add: bindE_def client_def)
    next
      case r1: (Inr v_title)
      show ?thesis
      proof (cases "p_getattr b post ''id'' w1")
        case i: (Pair r2 w2)
        show ?thesis
        proof (cases r2)
          case (Inl e)
          with t r1 i show ?thesis by (simp add: bindE_def client_def)
        next
          case r2: (Inr v_id)
          let ?s2 = "s\<lparr>remote := w2,
                       calls := calls s @ [CGetattr post ''title'', CGetattr post ''id'']\<rparr>"
          from "3.IH" [of ?s2]
          have ih: "fst (posts_data b rest ?s2) = fst (entries b rest w2)"
            "remote (snd (posts_data b rest ?s2)) = snd (entries b rest w2)"
            by simp_all
          from t r1 i r2 ih show ?thesis
            by (cases "posts_data b rest ?s2"; cases "entries b rest w2")
              (auto simp add: bindE_def client_def ret_def split: sum.splits)
        qed
      qed
    qed
  qed
qed

lemma entries_Inr:
  "entries b xs w = (Inr ds, w') \<Longrightarrow>
     (\<exists>items. xs = map Inr items \<and> list_all2 (entry_of b) ds items) \<and> length ds = length xs"
proof (induction b xs w arbitrary: ds w' rule: entries.induct)
  case (1 b w)
  then show ?case by simp
next
  case (2 b e rest w)
  then show ?case by simp
next
  case (3 b post rest w)
  from "3.prems" obtain v_title w1 v_id w2 ds'
    where t: "p_getattr b post ''title'' w = (Inr v_title, w1)"
      and i: "p_getattr b post ''id'' w1 = (Inr v_id, w2)"
      and r: "entries b rest w2 = (Inr ds', w')"
      and d: "ds = [(''title'', v_title), (''id'', v_id)] # ds'"
    by (auto split: prod.splits sum.splits)
  from "3.IH" [OF t [symmetric] refl i [symmetric] refl r] obtain items
    where items: "rest = map Inr items" "list_all2 (entry_of b) ds' items"
      and len: "length ds' = length rest"
    by blast
  from t i have "entry_of b [(''title'', v_title), (''id'', v_id)] post"
    unfolding entry_of_def by blast
  with items d have "Inr post # rest = map Inr (post # items) \<and>
      list_all2 (entry_of b) ds (post # items)"
    by simp
  then have "\<exists>items. Inr post # rest = map Inr items \<and> list_all2 (entry_of b) ds items"
    by (rule exI)
  with d len show ?case by simp
qed

lemma get_recent_posts_result:
  "fst (get_recent_posts b limit s) =
     Inr (case p_user_me b (reddit (facade s)) (remote s) of
            (Inl e, w1) \<Rightarrow> []
          | (Inr user, w1) \<Rightarrow>
              (case p_submissions_new b user limit w1 of
                 (Inl e, w2) \<Rightarrow> []
               | (Inr recent_posts, w2) \<Rightarrow>
                   (case entries b recent_posts w2 of
                      (Inl e, w3) \<Rightarrow> []
                    | (Inr ds, w3) \<Rightarrow> ds)))"
proof (cases "p_user_me b (reddit (facade s)) (remote s)")
  case u: (Pair r1 w1)
  show ?thesis
  proof (cases r1)
    case (Inl e)
    with u show ?thesis
      by (simp add: get_recent_posts_def monad_defs)
  next
    case r1: (Inr user)
    show ?thesis
    proof (cases "p_submissions_new b user limit w1")
      case n: (Pair r2 w2)
      show ?thesis
      proof (cases r2)
        case (Inl e)
        with u r1 n show ?thesis
          by (simp add: get_recent_posts_def monad_defs)
      next
        case r2: (Inr recent_posts)
        let ?s2 = "s\<lparr>remote := w2, calls := calls s @ [CUserMe, CSubmissionsNew user limit]\<rparr>"
        from posts_data_entries [of b recent_posts ?s2]
        have "fst (posts_data b recent_posts ?s2) = fst (entries b recent_posts w2)"
          by simp
        with u r1 n r2 show ?thesis
          by (cases "posts_data b recent_posts ?s2"; cases "entries b recent_posts w2")
            (auto simp add: get_recent_posts_def monad_defs split: sum.splits)
      qed
    qed
  qed
qed

text \<open>
  C4, as the code has it. \<^verbatim>\<open>get_recent_posts\<close> never raises, and its result is fixed by
  what the client returns: the empty list as soon as \<^verbatim>\<open>reddit.user.me()\<close>,
  \<^verbatim>\<open>user.submissions.new(limit=limit)\<close>, a step of the listing or a read of a title or
  an id raises; otherwise one dictionary of title and id for every item the listing
  yielded, in the listing's order. The facade passes the limit on and does not cut the
  listing: the result has as many entries as the listing had items.
\<close>

theorem get_recent_posts_exact:
  "fst (get_recent_posts b limit s) =
     Inr (case p_user_me b (reddit (facade s)) (remote s) of
            (Inl e, w1) \<Rightarrow> []
          | (Inr user, w1) \<Rightarrow>
              (case p_submissions_new b user limit w1 of
                 (Inl e, w2) \<Rightarrow> []
               | (Inr recent_posts, w2) \<Rightarrow>
                   (case entries b recent_posts w2 of
                      (Inl e, w3) \<Rightarrow> []
                    | (Inr ds, w3) \<Rightarrow> ds))) \<and>
   (entries b xs w = (Inr ds, w') \<longrightarrow>
      (\<exists>items. xs = map Inr items \<and> list_all2 (entry_of b) ds items) \<and>
      length ds = length xs)"
  using get_recent_posts_result [of b limit s] entries_Inr [of b xs w ds w']
  by blast

theorem get_recent_posts_exact_witness:
  "fst (get_recent_posts memory_praw 1 state2) =
     Inr [[(''title'', PStr ''Second''), (''id'', PStr ''abc124'')]] \<and>
   entries memory_praw [Inr (Submission_h ''abc124'')] world2 =
     (Inr [[(''title'', PStr ''Second''), (''id'', PStr ''abc124'')]], world2) \<and>
   length [[(''title'', PStr ''Second''), (''id'', PStr ''abc124'') :: string \<times> mobj pyval]] =
     length [Inr (Submission_h ''abc124'') :: exn + mobj]"
proof -
  have e: "entries memory_praw [Inr (Submission_h ''abc124'')] world2 =
     (Inr [[(''title'', PStr ''Second''), (''id'', PStr ''abc124'')]], world2)"
    by (simp add: memory_eval)
  have r: "fst (get_recent_posts memory_praw 1 state2) =
     Inr [[(''title'', PStr ''Second''), (''id'', PStr ''abc124'')]]"
    by (simp add: get_recent_posts_exact [THEN conjunct1] memory_eval)
  from get_recent_posts_exact [THEN conjunct2, rule_format, OF e]
  have "length [[(''title'', PStr ''Second''), (''id'', PStr ''abc124'') :: string \<times> mobj pyval]] =
     length [Inr (Submission_h ''abc124'') :: exn + mobj]"
    by simp
  with e r show ?thesis by simp
qed

text \<open>
  C4 as stated fails. With the limit \<open>-1\<close> the result is the empty list, which has more
  than \<open>-1\<close> entries; and with a client whose listing does not keep to the limit, the
  limit 1 gives two entries, since the facade returns whatever the listing yields.
\<close>

theorem get_recent_posts_limit_not_kept:
  "fst (get_recent_posts memory_praw (- 1) state2) = Inr [] \<and>
   fst (get_recent_posts unlimited_praw 1 state2) =
     Inr [[(''title'', PStr ''Second''), (''id'', PStr ''abc124'')],
          [(''title'', PStr ''Hello''), (''id'', PStr ''abc123'')]]"
  by (simp add: get_recent_posts_def monad_defs memory_eval unlimited_praw_def)

section \<open>The link of the update flow (C8)\<close>

lemma markdowns_append [simp]: "markdowns (xs @ ys) = markdowns xs @ markdowns ys"
  by (induction xs rule: markdowns.induct) simp_all

lemma links_render: "links (snd (render x p)) = links p @ markdowns [x]"
  by (simp add: links_def render_def)

lemma render_keeps_links:
  "links (snd (render (St_header h) p)) = links p"
  "links (snd (render (St_text_area h) p)) = links p"
  "links (snd (render (St_text_input h) p)) = links p"
  "links (snd (render (St_button h) p)) = links p"
  "links (snd (render (St_success h) p)) = links p"
  "links (snd (render (St_error h) p)) = links p"
  "links (snd (render (St_warning h) p)) = links p"
  "links (snd (render (St_info h) p)) = links p"
  "links (snd (render (St_write h) p)) = links p"
  "links (snd (render (St_write_dict d) p)) = links p"
  "links (snd (render (St_selectbox h os) p)) = links p"
  "links (snd (render (St_sidebar_selectbox h ss) p)) = links p"
  by (simp_all add: links_render)

lemma on_reddit_manager_keeps_links: "links (snd (on_reddit_manager m p)) = links p"
  by (simp add: on_reddit_manager_def links_def split: option.splits prod.splits)

lemma on_reddit_manager_Inr_E:
  assumes "on_reddit_manager m p = (Inr x, p')"
  obtains s s' where "reddit_manager p = Some s" and "m s = (Inr x, s')"
    and "p' = p\<lparr>reddit_manager := Some s'\<rparr>"
  using assms by (auto simp add: on_reddit_manager_def split: option.splits prod.splits)

lemma option_case_keeps:
  assumes "g (snd (m1 s)) = g s" and "\<And>x. g (snd (m2 x s)) = g s"
  shows "g (snd ((case v of None \<Rightarrow> m1 | Some x \<Rightarrow> m2 x) s)) = g s"
  using assms by (cases v) simp_all

lemmas keeps_links = bindE_keeps [where g = links] if_keeps [where g = links]
  option_case_keeps [where g = links]
  simple_keeps [where g = links] render_keeps_links on_reddit_manager_keeps_links

lemma dropdown_keeps_links: "links (snd (get_recent_posts_dropdown b inp p)) = links p"
  unfolding get_recent_posts_dropdown_def Let_def by (intro keeps_links)

lemma read_post_no_subreddit:
  assumes "read_post b i s = (Inr (Some d), s')"
  shows "map_of d ''subreddit'' = None"
proof -
  from assms obtain v_id v_title v_selftext v_score v_url v_datetime v_author v_num
    where "d = [(''id'', v_id), (''title'', v_title), (''content'', v_selftext),
               (''score'', v_score), (''url'', v_url), (''created_utc'', v_datetime),
               (''author'', PStr (py_str b v_author)), (''num_comments'', v_num)]"
    unfolding read_post_Some by blast
  then show ?thesis by simp
qed

lemma adds_refl: "adds_updated_link a a"
  by (simp add: adds_updated_link_def)

lemma adds_keeps: "g (snd (m s)) = g s \<Longrightarrow> adds_updated_link (g s) (g (snd (m s)))"
  by (simp add: adds_refl)

lemma adds_bindE:
  assumes "\<And>s. g (snd (m s)) = g s" and "\<And>x s. adds_updated_link (g s) (g (snd (f x s)))"
  shows "adds_updated_link (g s) (g (snd (bindE m f s)))"
proof (cases "m s")
  case (Pair r s1)
  with assms(1) [of s] have k: "g s1 = g s" by simp
  show ?thesis
  proof (cases r)
    case (Inl e)
    with Pair k show ?thesis by (simp add: bindE_def adds_refl)
  next
    case (Inr x)
    from assms(2) [of s1 x] k have "adds_updated_link (g s) (g (snd (f x s1)))"
      by simp
    with Pair Inr show ?thesis by (simp add: bindE_def)
  qed
qed

lemma adds_if:
  assumes "adds_updated_link (g s) (g (snd (m1 s)))" and "adds_updated_link (g s) (g (snd (m2 s)))"
  shows "adds_updated_link (g s) (g (snd ((if c then m1 else m2) s)))"
  using assms by simp

text \<open>The last two lines of the update flow: the post is read again and the link is built.\<close>

lemma reread_adds_link:
  "adds_updated_link (links p)
     (links (snd (bindE (on_reddit_manager (read_post b post_id)) (\<lambda>post_data.
               case post_data of
                 None \<Rightarrow> raiseE e
               | Some d \<Rightarrow>
                   render (St_markdown (''[View Updated Post on Reddit]('' @
                         post_url (py_str b (dict_get d ''subreddit'' (PStr ''unknown'')))
                           (py_str b post_id) @ '')''))) p)))"
proof (cases "on_reddit_manager (read_post b post_id) p")
  case (Pair r p1)
  have l: "links p1 = links p"
    using on_reddit_manager_keeps_links [of "read_post b post_id" p] Pair by simp
  show ?thesis
  proof (cases r)
    case (Inl e')
    with Pair l show ?thesis by (simp add: bindE_def adds_refl)
  next
    case (Inr post_data)
    show ?thesis
    proof (cases post_data)
      case None
      with Pair Inr l show ?thesis by (simp add: bindE_def raiseE_def adds_refl)
    next
      case (Some d)
      with Pair Inr have "map_of d ''subreddit'' = None"
        by (auto elim!: on_reddit_manager_Inr_E dest: read_post_no_subreddit)
      then have "py_str b (dict_get d ''subreddit'' (PStr ''unknown'')) = ''unknown''"
        by (simp add: dict_get_def)
      with Pair Inr Some l show ?thesis
        by (auto simp add: bindE_def links_render adds_updated_link_def updated_link_def
            post_url_def)
    qed
  qed
qed

lemma update_branch_adds_link:
  "adds_updated_link (links p) (links (snd (update_branch b inp p)))"
  unfolding update_branch_def Let_def
  by (intro adds_bindE [where g = links] adds_if [where g = links] reread_adds_link
      dropdown_keeps_links keeps_links adds_keeps [where g = links])


lemma links_app_init: "links (app_init env w) = []"
  by (simp add: app_init_def links_def split: sum.splits)

text \<open>
  C8. The dictionary of a successful \<^verbatim>\<open>read_post\<close> has no key \<^verbatim>\<open>subreddit\<close>, so
  \<^verbatim>\<open>post_data.get('subreddit', 'unknown')\<close> is \<^verbatim>\<open>'unknown'\<close>; and a run of the script
  with Reddit and "Update Post" chosen shows no link, or the one link of the update flow,
  whose address has \<^verbatim>\<open>unknown\<close> where the subreddit's name belongs.
\<close>

theorem update_flow_link_unknown:
  fixes b :: "('w, 'o) praw"
  shows
  "(read_post b post_id s = (Inr (Some d), s') \<longrightarrow>
      map_of d ''subreddit'' = None \<and>
      dict_get d ''subreddit'' (PStr ''unknown'') = PStr ''unknown'') \<and>
   (selectbox [] platforms (platform_choice inp) = ''Reddit'' \<longrightarrow>
    selectbox [] operations (operation_choice inp) = ''Update Post'' \<longrightarrow>
      links (snd (app b env inp w)) = [] \<or>
      (\<exists>pid. links (snd (app b env inp w)) = [updated_link pid]))"
proof (intro conjI impI)
  assume "read_post b post_id s = (Inr (Some d), s')"
  then have "map_of d ''subreddit'' = None"
    by (rule read_post_no_subreddit)
  then show "map_of d ''subreddit'' = None"
    and "dict_get d ''subreddit'' (PStr ''unknown'') = PStr ''unknown''"
    by (simp_all add: dict_get_def)
next
  assume p: "selectbox [] platforms (platform_choice inp) = ''Reddit''"
    and ope: "selectbox [] operations (operation_choice inp) = ''Update Post''"
  have "app_body b inp =
      bindE (render (St_sidebar_selectbox ''Select Social Media Platform'' platforms)) (\<lambda>_.
      bindE (render (St_sidebar_selectbox ''Select Operation'' operations)) (\<lambda>_.
      update_branch b inp))"
    by (simp add: app_body_def Let_def p ope)
  then have "adds_updated_link (links (app_init env w :: ('w, 'o) page))
      (links (snd (app b env inp w)))"
    unfolding app_def
    by (simp only:) (intro adds_bindE [where g = links] update_branch_adds_link keeps_links)
  then show "links (snd (app b env inp w)) = [] \<or>
      (\<exists>pid. links (snd (app b env inp w)) = [updated_link pid])"
    by (simp add: adds_updated_link_def links_app_init)
qed

lemma selectbox_eval:
  "selectbox none (x # xs) 0 = x"
  "selectbox none (x # y # xs) (Suc 0) = y"
  "selectbox none (x # y # z # xs) 2 = z"
  by (simp_all add: selectbox_def)

lemmas app_eval = app_body_def update_branch_def read_branch_def
  get_recent_posts_dropdown_def on_reddit_manager_def render_def
  get_recent_posts_call_def get_recent_posts_def update_post_def read_post_def
  dict_item_def dict_get_def post_url_def
  platforms_def operations_def selectbox_eval Let_def
  monad_defs memory_eval

lemma init_full_env_world1: "RedditManager_init full_env world1 = Inr state1"
  by (simp add: state1_def state0_def RedditManager_init_def full_env_def missing_vars_def
      required_vars_def not_getenv_def praw_Reddit_def Let_def)

theorem update_flow_link_unknown_witness:
  "selectbox [] platforms (platform_choice update_inputs) = ''Reddit'' \<and>
   selectbox [] operations (operation_choice update_inputs) = ''Update Post'' \<and>
   links (snd (app memory_praw full_env update_inputs world1)) = [updated_link ''abc123'']"
proof -
  have p: "selectbox [] platforms (platform_choice update_inputs) = ''Reddit''"
    and ope: "selectbox [] operations (operation_choice update_inputs) = ''Update Post''"
    by (simp_all add: update_inputs_def platforms_def operations_def selectbox_eval)
  have "app memory_praw full_env update_inputs world1 =
      app_body memory_praw update_inputs \<lparr>reddit_manager = Some state1, rendered = []\<rparr>"
    by (simp add: app_def app_init_def init_full_env_world1)
  then have "rendered (snd (app memory_praw full_env update_inputs world1)) \<noteq> []"
    and "last (rendered (snd (app memory_praw full_env update_inputs world1))) =
      St_markdown (updated_link ''abc123'')"
    by (simp_all add: app_eval update_inputs_def updated_link_def)
  then have "links (snd (app memory_praw full_env update_inputs world1)) \<noteq> []"
    and "last (links (snd (app memory_praw full_env update_inputs world1))) = updated_link ''abc123''"
    unfolding links_def
    by (cases "rendered (snd (app memory_praw full_env update_inputs world1))" rule: rev_cases;
        simp)+
  with update_flow_link_unknown
      [where inp = update_inputs and b = memory_praw and env = full_env and w = world1,
       THEN conjunct2, rule_format, OF p ope]
  have "links (snd (app memory_praw full_env update_inputs world1)) = [updated_link ''abc123'']"
    by auto
  with p ope show ?thesis by simp
qed

section \<open>A failed construction (C1)\<close>

lemma grows_bindE:
  assumes "\<And>s. grows s (snd (m s))" and "\<And>x s. grows s (snd (f x s))"
  shows "grows s (snd (bindE m f s))"
proof (cases "m s")
  case (Pair r s1)
  with assms(1) [of s] have g: "grows s s1" by simp
  show ?thesis
  proof (cases r)
    case (Inl e)
    with Pair g show ?thesis by (simp add: bindE_def)
  next
    case (Inr x)
    from assms(2) [of s1 x] g have "grows s (snd (f x s1))"
      by (auto simp add: grows_def)
    with Pair Inr show ?thesis by (simp add: bindE_def)
  qed
qed

lemma grows_if:
  assumes "grows s (snd (m1 s))" and "grows s (snd (m2 s))"
  shows "grows s (snd ((if c then m1 else m2) s))"
  using assms by simp

lemma grows_option_case:
  assumes "grows s (snd (m1 s))" and "\<And>x. grows s (snd (m2 x s))"
  shows "grows s (snd ((case v of None \<Rightarrow> m1 | Some x \<Rightarrow> m2 x) s))"
  using assms by (cases v) simp_all

lemma grows_simple:
  "grows p (snd (ret x p))" "grows p (snd (raiseE e p))" "grows p (snd (lift r p))"
  "grows p (snd (render y p))" "grows p (snd (on_reddit_manager m p))"
  by (simp_all add: grows_def ret_def raiseE_def lift_def render_def on_reddit_manager_def
      split: option.splits prod.splits)

lemmas grows_rules = grows_bindE grows_if grows_option_case grows_simple

lemma dropdown_grows: "grows p (snd (get_recent_posts_dropdown b inp p))"
  unfolding get_recent_posts_dropdown_def Let_def by (intro grows_rules)

lemma branches_grow:
  "grows p (snd (create_branch b inp p))"
  "grows p (snd (read_branch b inp p))"
  "grows p (snd (update_branch b inp p))"
  "grows p (snd (delete_branch b inp p))"
  unfolding create_branch_def read_branch_def update_branch_def delete_branch_def Let_def
  by (intro grows_rules dropdown_grows)+

lemma unbound_simple:
  "unbound (snd (render y p)) = unbound p"
  "unbound (snd (on_reddit_manager m p)) = unbound p"
  by (simp_all add: unbound_def render_def on_reddit_manager_def split: option.splits prod.splits)

lemmas keeps_unbound = bindE_keeps [where g = unbound] if_keeps [where g = unbound]
  option_case_keeps [where g = unbound] simple_keeps [where g = unbound] unbound_simple

lemma dropdown_keeps_unbound: "unbound (snd (get_recent_posts_dropdown b inp p)) = unbound p"
  unfolding get_recent_posts_dropdown_def Let_def by (intro keeps_unbound)

lemma app_body_keeps_unbound: "unbound (snd (app_body b inp p)) = unbound p"
  unfolding app_body_def create_branch_def read_branch_def update_branch_def delete_branch_def
    Let_def
  by (intro keeps_unbound dropdown_keeps_unbound)

lemma app_body_rendered:
  "\<exists>rest. rendered (snd (app_body b inp p)) =
     rendered p @ [St_sidebar_selectbox ''Select Social Media Platform'' platforms,
                   St_sidebar_selectbox ''Select Operation'' operations] @ rest"
proof -
  define p2 where "p2 = p\<lparr>rendered := rendered p @
      [St_sidebar_selectbox ''Select Social Media Platform'' platforms,
       St_sidebar_selectbox ''Select Operation'' operations]\<rparr>"
  define rest where "rest =
     (if selectbox [] platforms (platform_choice inp) = ''Reddit'' then
        if selectbox [] operations (operation_choice inp) = ''Create Post''
          then create_branch b inp
        else if selectbox [] operations (operation_choice inp) = ''Read Post''
          then read_branch b inp
        else if selectbox [] operations (operation_choice inp) = ''Update Post''
          then update_branch b inp
        else if selectbox [] operations (operation_choice inp) = ''Delete Post''
          then delete_branch b inp
        else ret ()
      else render (St_write (selectbox [] platforms (platform_choice inp) @
                             '' integration coming soon!'')))"
  have "app_body b inp p = rest p2"
    by (simp add: app_body_def bindE_def render_def Let_def rest_def p2_def)
  moreover have "grows p2 (snd (rest p2))"
    unfolding rest_def by (intro grows_rules branches_grow)
  ultimately show ?thesis
    by (auto simp add: grows_def p2_def)
qed

lemma app_init_failed:
  fixes w :: 'w
  assumes "missing_vars env \<noteq> []"
  shows "(app_init env w :: ('w, 'o) page) =
     \<lparr>reddit_manager = None,
      rendered = [St_error (''Failed to initialize RedditManager: '' @
                            ''Missing required environment variables: '' @
                            join '', '' (missing_vars env))]\<rparr>"
  using assms by (simp add: app_init_def RedditManager_init_def Let_def)

lemma dropdown_unbound:
  assumes "reddit_manager p = None"
  shows "get_recent_posts_dropdown b inp p = (Inl name_error, p)"
  using assms
  by (simp add: get_recent_posts_dropdown_def bindE_def on_reddit_manager_def name_error_def)

lemma branches_unbound:
  assumes "reddit_manager p = None"
  shows "fst (read_branch b inp p) = Inl name_error"
    and "fst (update_branch b inp p) = Inl name_error"
    and "fst (delete_branch b inp p) = Inl name_error"
  using assms
  by (simp_all add: read_branch_def update_branch_def delete_branch_def bindE_def render_def
      dropdown_unbound)

lemma app_body_unbound:
  assumes "reddit_manager p = None"
    and "selectbox [] platforms (platform_choice inp) = ''Reddit''"
    and "selectbox [] operations (operation_choice inp) \<in>
           {''Read Post'', ''Update Post'', ''Delete Post''}"
  shows "fst (app_body b inp p) = Inl name_error"
  using assms
  by (auto simp add: app_body_def bindE_def render_def Let_def branches_unbound)

text \<open>
  C1 against the code. When a required variable is missing, \<^verbatim>\<open>app.py\<close> shows the error
  and goes on: the two selectors of the sidebar are rendered after it, and so is whatever
  the chosen operation renders before its first use of \<^verbatim>\<open>reddit_manager\<close>. The name is
  unbound throughout, so no method of the facade runs; with Reddit and one of the
  operations read, update, delete chosen, the run ends in \<^verbatim>\<open>NameError\<close>.
\<close>

theorem failed_init_still_serves_ui:
  fixes b :: "('w, 'o) praw"
  assumes "missing_vars env \<noteq> []"
  shows "(\<exists>rest. rendered (snd (app b env inp w)) =
            [St_error (''Failed to initialize RedditManager: '' @
                       ''Missing required environment variables: '' @
                       join '', '' (missing_vars env)),
             St_sidebar_selectbox ''Select Social Media Platform'' platforms,
             St_sidebar_selectbox ''Select Operation'' operations] @ rest) \<and>
         reddit_manager (snd (app b env inp w)) = None \<and>
         (selectbox [] platforms (platform_choice inp) = ''Reddit'' \<longrightarrow>
          selectbox [] operations (operation_choice inp) \<in>
            {''Read Post'', ''Update Post'', ''Delete Post''} \<longrightarrow>
          fst (app b env inp w) = Inl name_error)"
proof (intro conjI impI)
  let ?p = "app_init env w :: ('w, 'o) page"
  from app_body_rendered [of b inp ?p] app_init_failed [OF assms, where w = w and 'o = 'o]
  show "\<exists>rest. rendered (snd (app b env inp w)) =
            [St_error (''Failed to initialize RedditManager: '' @
                       ''Missing required environment variables: '' @
                       join '', '' (missing_vars env)),
             St_sidebar_selectbox ''Select Social Media Platform'' platforms,
             St_sidebar_selectbox ''Select Operation'' operations] @ rest"
    by (simp add: app_def)
  from app_body_keeps_unbound [of b inp ?p] app_init_failed [OF assms, where w = w and 'o = 'o]
  show "reddit_manager (snd (app b env inp w)) = None"
    by (simp add: app_def unbound_def)
next
  assume "selectbox [] platforms (platform_choice inp) = ''Reddit''"
    and "selectbox [] operations (operation_choice inp) \<in>
            {''Read Post'', ''Update Post'', ''Delete Post''}"
  with app_init_failed [OF assms, where w = w and 'o = 'o]
  show "fst (app b env inp w) = Inl name_error"
    by (simp add: app_def app_body_unbound)
qed

theorem failed_init_still_serves_ui_witness:
  "missing_vars Map.empty \<noteq> [] \<and>
   app memory_praw Map.empty read_inputs world0 =
     (Inl name_error,
      \<lparr>reddit_manager = None,
       rendered =
         [St_error (''Failed to initialize RedditManager: '' @
            ''Missing required environment variables: '' @
            ''REDDIT_CLIENT_ID, REDDIT_CLIENT_SECRET, REDDIT_USERNAME, '' @
            ''REDDIT_PASSWORD, REDDIT_USER_AGENT''),
          St_sidebar_selectbox ''Select Social Media Platform'' platforms,
          St_sidebar_selectbox ''Select Operation'' operations,
          St_header ''Read a Reddit Post'']\<rparr>)"
proof -
  have m: "missing_vars Map.empty =
      [''REDDIT_CLIENT_ID'', ''REDDIT_CLIENT_SECRET'', ''REDDIT_USERNAME'',
       ''REDDIT_PASSWORD'', ''REDDIT_USER_AGENT'']"
    by (simp add: missing_vars_def required_vars_def not_getenv_def)
  then have n: "missing_vars Map.empty \<noteq> []"
    by simp
  have i: "(app_init Map.empty world0 :: (mworld, mobj) page) =
     \<lparr>reddit_manager = None,
      rendered = [St_error (''Failed to initialize RedditManager: '' @
            ''Missing required environment variables: '' @
            ''REDDIT_CLIENT_ID, REDDIT_CLIENT_SECRET, REDDIT_USERNAME, '' @
            ''REDDIT_PASSWORD, REDDIT_USER_AGENT'')]\<rparr>"
    using app_init_failed [OF n, where w = world0 and 'o = mobj] m by simp
  have "app memory_praw Map.empty read_inputs world0 =
     (Inl name_error,
      \<lparr>reddit_manager = None,
       rendered =
         [St_error (''Failed to initialize RedditManager: '' @
            ''Missing required environment variables: '' @
            ''REDDIT_CLIENT_ID, REDDIT_CLIENT_SECRET, REDDIT_USERNAME, '' @
            ''REDDIT_PASSWORD, REDDIT_USER_AGENT''),
          St_sidebar_selectbox ''Select Social Media Platform'' platforms,
          St_sidebar_selectbox ''Select Operation'' operations,
          St_header ''Read a Reddit Post'']\<rparr>)"
    unfolding app_def i
    by (simp add: app_body_def read_branch_def get_recent_posts_dropdown_def
        on_reddit_manager_def render_def bindE_def Let_def read_inputs_def name_error_def
        selectbox_def platforms_def operations_def)
  with failed_init_still_serves_ui [OF n, of memory_praw read_inputs world0] n
  show ?thesis by simp
qed

end
